theory Spec2Isabelle
  imports Complex_Main
begin

section \<open>The orchestration layer of app.py\<close>

text \<open>
  The three request handlers of \<^verbatim>\<open>GradioApp\<close> (\<^verbatim>\<open>detect_faces\<close>, \<^verbatim>\<open>reenact_face\<close>,
  \<^verbatim>\<open>detect_deepfakes\<close>) are embedded as HOL functions.

  \<^item> A Python \<^verbatim>\<open>str\<close> is the \<^typ>\<open>string\<close> of its UTF-8 bytes; the pictographs of the
    source are the byte sequences below. An \<^verbatim>\<open>Optional[str]\<close> is a \<^typ>\<open>string option\<close>.
  \<^item> A Python \<^verbatim>\<open>float\<close> is represented by the \<^typ>\<open>real\<close> number that its shortest
    decimal form (its \<^verbatim>\<open>repr\<close>, the literal of the source) denotes: \<open>0.8\<close> stands for
    the double written \<^verbatim>\<open>0.8\<close>. This keeps the order of floats, so comparisons are
    those of the reals. Arithmetic that rounds in doubles, \<^verbatim>\<open>1.0 - confidence_threshold\<close>
    and \<^verbatim>\<open>confidence * width\<close>, is not computed in the reals: it belongs to the
    Python runtime and is a parameter of the model (\<open>float_sub\<close>, \<open>float_mul\<close> of the
    record \<open>float_runtime\<close>), as is the rendering of a float as text (\<^verbatim>\<open>:.1%\<close>,
    \<^verbatim>\<open>:.3f\<close>, \<^verbatim>\<open>repr\<close>). The sum and the quotients of the weights \<open>0.5\<close> and \<open>1.0\<close> are
    exact in doubles and are computed in the reals. Infinities and NaN are left out.
  \<^item> The file system and the three collaborators (face detector, reenactor, deepfake
    pipeline) are parameters as well, gathered in the record \<open>world\<close>. A call that may
    raise returns \<open>exn + result\<close>, with \<open>Inl\<close> the exception. A handler returns
    \<open>exn + response\<close>: \<open>Inl\<close> is an exception that its \<^verbatim>\<open>except Exception\<close> clause does
    not catch and that reaches the caller.
  \<^item> \<^verbatim>\<open>os.path\<close> is \<^verbatim>\<open>posixpath\<close>.
\<close>

subsection \<open>Strings\<close>

definition cross_mark :: string where
  "cross_mark = [CHR 0xE2, CHR 0x9D, CHR 0x8C]"

definition full_block :: string where
  "full_block = [CHR 0xE2, CHR 0x96, CHR 0x88]"

definition light_shade :: string where
  "light_shade = [CHR 0xE2, CHR 0x96, CHR 0x91]"

definition red_circle :: string where
  "red_circle = [CHR 0xF0, CHR 0x9F, CHR 0x94, CHR 0xB4]"

definition yellow_circle :: string where
  "yellow_circle = [CHR 0xF0, CHR 0x9F, CHR 0x9F, CHR 0xA1]"

definition orange_circle :: string where
  "orange_circle = [CHR 0xF0, CHR 0x9F, CHR 0x9F, CHR 0xA0]"

definition green_circle :: string where
  "green_circle = [CHR 0xF0, CHR 0x9F, CHR 0x9F, CHR 0xA2]"

definition rotating_light :: string where
  "rotating_light = [CHR 0xF0, CHR 0x9F, CHR 0x9A, CHR 0xA8]"

definition check_mark :: string where
  "check_mark = [CHR 0xE2, CHR 0x9C, CHR 0x85]"

definition clapper_board :: string where
  "clapper_board = [CHR 0xF0, CHR 0x9F, CHR 0x8E, CHR 0xAC]"

definition bar_chart :: string where
  "bar_chart = [CHR 0xF0, CHR 0x9F, CHR 0x93, CHR 0x8A]"

definition direct_hit :: string where
  "direct_hit = [CHR 0xF0, CHR 0x9F, CHR 0x8E, CHR 0xAF]"

definition magnifying_glass :: string where
  "magnifying_glass = [CHR 0xF0, CHR 0x9F, CHR 0x94, CHR 0x8D]"

definition light_bulb :: string where
  "light_bulb = [CHR 0xF0, CHR 0x9F, CHR 0x92, CHR 0xA1]"

definition warning_sign :: string where
  "warning_sign = [CHR 0xE2, CHR 0x9A, CHR 0xA0]"

definition variation_selector :: string where
  "variation_selector = [CHR 0xEF, CHR 0xB8, CHR 0x8F]"

definition information_source :: string where
  "information_source = [CHR 0xE2, CHR 0x84, CHR 0xB9]"

text \<open>Truth value of an \<^verbatim>\<open>Optional[str]\<close>: \<^verbatim>\<open>None\<close> and \<^verbatim>\<open>""\<close> are false.\<close>

definition truthy :: "string option \<Rightarrow> bool" where
  "truthy x = (case x of None \<Rightarrow> False | Some s \<Rightarrow> s \<noteq> [])"

text \<open>\<^verbatim>\<open>sep.join(xs)\<close>\<close>

fun str_join :: "string \<Rightarrow> string list \<Rightarrow> string" where
  "str_join sep [] = []"
| "str_join sep [x] = x"
| "str_join sep (x # y # ys) = x @ sep @ str_join sep (y # ys)"

text \<open>\<^verbatim>\<open>s * n\<close>: the empty string for \<open>n \<le> 0\<close>.\<close>

definition str_mul :: "string \<Rightarrow> int \<Rightarrow> string" where
  "str_mul s n = concat (replicate (nat n) s)"

text \<open>\<^verbatim>\<open>str(n)\<close> of an integer.\<close>

fun str_nat :: "nat \<Rightarrow> string" where
  "str_nat n = (if n < 10 then [''0123456789'' ! n]
                else str_nat (n div 10) @ [''0123456789'' ! (n mod 10)])"

declare str_nat.simps [simp del]

definition str_int :: "int \<Rightarrow> string" where
  "str_int i = (if i < 0 then ''-'' @ str_nat (nat (- i)) else str_nat (nat i))"

text \<open>
  \<^verbatim>\<open>s.title()\<close> on ASCII letters: a letter that follows a letter is lower-cased, any other
  letter is upper-cased. The source applies it to \<^verbatim>\<open>"image"\<close> and \<^verbatim>\<open>"video"\<close> only.
\<close>

definition is_upper :: "char \<Rightarrow> bool" where
  "is_upper c = (65 \<le> (of_char c :: nat) \<and> (of_char c :: nat) \<le> 90)"

definition is_lower :: "char \<Rightarrow> bool" where
  "is_lower c = (97 \<le> (of_char c :: nat) \<and> (of_char c :: nat) \<le> 122)"

definition to_upper :: "char \<Rightarrow> char" where
  "to_upper c =
     (if is_lower c then ''ABCDEFGHIJKLMNOPQRSTUVWXYZ'' ! ((of_char c :: nat) - 97) else c)"

definition to_lower :: "char \<Rightarrow> char" where
  "to_lower c =
     (if is_upper c then ''abcdefghijklmnopqrstuvwxyz'' ! ((of_char c :: nat) - 65) else c)"

fun title_from :: "bool \<Rightarrow> string \<Rightarrow> string" where
  "title_from previous_is_cased [] = []"
| "title_from previous_is_cased (c # cs) =
     (if is_upper c \<or> is_lower c
      then (if previous_is_cased then to_lower c else to_upper c) # title_from True cs
      else c # title_from False cs)"

definition title :: "string \<Rightarrow> string" where
  "title s = title_from False s"

subsection \<open>posixpath\<close>

definition basename :: "string \<Rightarrow> string" where
  "basename p = rev (takeWhile (\<lambda>c. c \<noteq> CHR ''/'') (rev p))"

definition dirname :: "string \<Rightarrow> string" where
  "dirname p =
     (let head = rev (dropWhile (\<lambda>c. c \<noteq> CHR ''/'') (rev p))
      in if head \<noteq> [] \<and> head \<noteq> replicate (length head) CHR ''/''
         then rev (dropWhile (\<lambda>c. c = CHR ''/'') (rev head))
         else head)"

text \<open>
  \<^verbatim>\<open>splitext\<close>: the extension starts at the last dot of the last path component, unless
  only dots precede it there.
\<close>

definition splitext :: "string \<Rightarrow> string \<times> string" where
  "splitext p =
     (let name = basename p;
          ext = rev (takeWhile (\<lambda>c. c \<noteq> CHR ''.'') (rev name));
          stem = take (length name - length ext - 1) name
      in if CHR ''.'' \<in> set name \<and> list_ex (\<lambda>c. c \<noteq> CHR ''.'') stem
         then (take (length p - length ext - 1) p, CHR ''.'' # ext)
         else (p, []))"

definition path_join :: "string \<Rightarrow> string \<Rightarrow> string" where
  "path_join a b =
     (if take 1 b = ''/'' then b
      else if a = [] \<or> last a = CHR ''/'' then a @ b
      else a @ ''/'' @ b)"

subsection \<open>Floats\<close>

text \<open>
  What the Python runtime does with doubles: \<^verbatim>\<open>a - b\<close>, \<^verbatim>\<open>a * b\<close>, \<^verbatim>\<open>format(x, '.1%')\<close>,
  \<^verbatim>\<open>format(x, '.3f')\<close> and \<^verbatim>\<open>repr(x)\<close>.
\<close>

record float_runtime =
  float_sub :: "real \<Rightarrow> real \<Rightarrow> real"
  float_mul :: "real \<Rightarrow> real \<Rightarrow> real"
  fmt_pct1 :: "real \<Rightarrow> string"
  fmt_fixed3 :: "real \<Rightarrow> string"
  fmt_repr :: "real \<Rightarrow> string"

text \<open>
  \<^verbatim>\<open>int(x)\<close> of a float truncates towards zero. No integer lies between a double and its
  shortest decimal form, so truncating the one or the other gives the same integer.
\<close>

definition py_int :: "real \<Rightarrow> int" where
  "py_int x = (if x \<ge> 0 then \<lfloor>x\<rfloor> else \<lceil>x\<rceil>)"

text \<open>
  \<^verbatim>\<open>repr\<close> of a \<^verbatim>\<open>dict\<close> from \<^verbatim>\<open>str\<close> to \<^verbatim>\<open>float\<close>, in insertion order. The keys of the
  source are two literals without quotes or escapes, so \<^verbatim>\<open>repr\<close> of a key puts it between
  apostrophes.
\<close>

definition repr_str :: "string \<Rightarrow> string" where
  "repr_str s = [CHR 0x27] @ s @ [CHR 0x27]"

definition repr_dict :: "float_runtime \<Rightarrow> (string \<times> real) list \<Rightarrow> string" where
  "repr_dict rt d =
     ''{'' @ str_join '', '' (map (\<lambda>(k, v). repr_str k @ '': '' @ fmt_repr rt v) d) @ ''}''"

subsection \<open>Exceptions, file system, collaborators\<close>

text \<open>
  The exceptions of a call. \<open>Raised m\<close> is an instance of \<^verbatim>\<open>Exception\<close> raised by a
  collaborator or by the operating system, with \<^verbatim>\<open>str(e)\<close> \<open>= m\<close>. \<^verbatim>\<open>SystemExit\<close>,
  \<^verbatim>\<open>KeyboardInterrupt\<close> and \<^verbatim>\<open>GeneratorExit\<close> derive from \<^verbatim>\<open>BaseException\<close> and not from
  \<^verbatim>\<open>Exception\<close>; \<open>is_Exception e\<close> is \<^verbatim>\<open>isinstance(e, Exception)\<close>, the test of an
  \<^verbatim>\<open>except Exception\<close> clause.
\<close>

datatype exn =
    TypeError string
  | ZeroDivisionError string
  | Raised string
  | SystemExit string
  | KeyboardInterrupt
  | GeneratorExit

fun is_Exception :: "exn \<Rightarrow> bool" where
  "is_Exception (TypeError m) = True"
| "is_Exception (ZeroDivisionError m) = True"
| "is_Exception (Raised m) = True"
| "is_Exception (SystemExit m) = False"
| "is_Exception KeyboardInterrupt = False"
| "is_Exception GeneratorExit = False"

fun str_exn :: "exn \<Rightarrow> string" where
  "str_exn (TypeError m) = m"
| "str_exn (ZeroDivisionError m) = m"
| "str_exn (Raised m) = m"
| "str_exn (SystemExit m) = m"
| "str_exn KeyboardInterrupt = []"
| "str_exn GeneratorExit = []"

record filesystem =
  fs_exists :: "string \<Rightarrow> bool"
  fs_glob :: "string \<Rightarrow> string list"

text \<open>
  A detection as \<^verbatim>\<open>detect_faces\<close> reads it: \<^verbatim>\<open>detection.bbox.x1\<close>, \<open>\<dots>\<close>,
  \<^verbatim>\<open>detection.bbox.confidence\<close>.
\<close>

record detection =
  bbox_x1 :: int
  bbox_y1 :: int
  bbox_x2 :: int
  bbox_y2 :: int
  bbox_confidence :: real

text \<open>
  \<^item> \<open>detector\<close>: \<^verbatim>\<open>detector.detect(image_path, save_json=True, json_path, save_annotated=True,
    output_folder)\<close>, on a file system; returns the detections and the file system it
    leaves.
  \<^item> \<open>reenactor\<close>: \<^verbatim>\<open>reenactor.reenact_from_video(source_path, driving_video_path,
    output_path, save_comparison=True, resize_to_image_resolution)\<close>; returns the result
    path and the file system it leaves.
  \<^item> \<open>pipeline\<close>: \<^verbatim>\<open>pipeline.detect(media_path, output_folder, save_csv=True, num_frames)\<close>.
\<close>

type_synonym detector =
  "filesystem \<Rightarrow> string \<Rightarrow> string \<Rightarrow> string \<Rightarrow> exn + (detection list \<times> filesystem)"

type_synonym reenactor =
  "filesystem \<Rightarrow> string \<Rightarrow> string option \<Rightarrow> string \<Rightarrow> bool \<Rightarrow> exn + (string \<times> filesystem)"

type_synonym pipeline =
  "string \<Rightarrow> string \<Rightarrow> int \<Rightarrow> exn + bool"

record world =
  files :: filesystem
  os_makedirs :: "filesystem \<Rightarrow> string \<Rightarrow> exn + filesystem"
  FaceDetector_create :: "string \<Rightarrow> exn + detector"
  FaceReenactor_create :: "string \<Rightarrow> exn + reenactor"
  PipelineDeepfakeDetection :: "(string \<times> real) list \<Rightarrow> real \<Rightarrow> exn + pipeline"

definition output_dir :: string where
  "output_dir = ''gradio_output''"

subsection \<open>detect_deepfakes\<close>

text \<open>
  Lines 224--234: which media file the job works on. \<open>usable_path\<close> is the test
  \<^verbatim>\<open>path and os.path.exists(path)\<close> of lines 227 and 230, returning the path when it
  holds.
\<close>

definition usable_path :: "filesystem \<Rightarrow> string option \<Rightarrow> string option" where
  "usable_path fs path =
     (case path of
        None \<Rightarrow> None
      | Some p \<Rightarrow> if p \<noteq> [] \<and> fs_exists fs p then Some p else None)"

definition select_media ::
  "filesystem \<Rightarrow> string option \<Rightarrow> string option \<Rightarrow> (string \<times> string) option" where
  "select_media fs image_file video_file =
     (case usable_path fs image_file of
        Some p \<Rightarrow> Some (p, ''image'')
      | None \<Rightarrow>
          (case usable_path fs video_file of
             Some p \<Rightarrow> Some (p, ''video'')
           | None \<Rightarrow> None))"

definition no_media_message :: string where
  "no_media_message = cross_mark @ '' **Error**: Please upload either an image or video file''"

definition no_models_message :: string where
  "no_models_message =
     cross_mark @ '' **Error**: Please select at least one model to use for deepfake detection''"

text \<open>Lines 237--243: the dictionary \<^verbatim>\<open>model_configs\<close>, in insertion order.\<close>

definition select_model_configs :: "string list \<Rightarrow> (string \<times> real) list" where
  "select_model_configs models_to_use =
     (if ''resnet_inception'' \<in> set models_to_use then [(''resnet_inception'', 0.5)] else []) @
     (if ''efficientnet'' \<in> set models_to_use then [(''efficientnet'', 0.5)] else [])"

text \<open>Lines 252--255. Division raises on a zero divisor.\<close>

definition py_truediv :: "real \<Rightarrow> real \<Rightarrow> exn + real" where
  "py_truediv a b =
     (if b = 0 then Inl (ZeroDivisionError ''float division by zero'') else Inr (a / b))"

fun divide_values :: "(string \<times> real) list \<Rightarrow> real \<Rightarrow> exn + (string \<times> real) list" where
  "divide_values [] total_weight = Inr []"
| "divide_values ((k, v) # items) total_weight =
     (case py_truediv v total_weight of
        Inl e \<Rightarrow> Inl e
      | Inr q \<Rightarrow>
          (case divide_values items total_weight of
             Inl e \<Rightarrow> Inl e
           | Inr items' \<Rightarrow> Inr ((k, q) # items')))"

definition normalize_weights :: "(string \<times> real) list \<Rightarrow> exn + (string \<times> real) list" where
  "normalize_weights model_configs =
     (let total_weight = sum_list (map snd model_configs)
      in if total_weight > 0 then divide_values model_configs total_weight
         else Inr model_configs)"

text \<open>Lines 279--283.\<close>

definition get_confidence_bar :: "float_runtime \<Rightarrow> real \<Rightarrow> int \<Rightarrow> string" where
  "get_confidence_bar rt confidence width =
     (let filled = py_int (float_mul rt confidence (of_int width));
          bar = str_mul full_block filled @ str_mul light_shade (width - filled)
      in ''['' @ bar @ ''] '' @ fmt_pct1 rt confidence)"

text \<open>Lines 285--300.\<close>

definition get_risk_level :: "real \<Rightarrow> bool \<Rightarrow> string" where
  "get_risk_level confidence is_deepfake =
     (if is_deepfake then
        (if confidence \<ge> 0.8 then red_circle @ '' **HIGH RISK**''
         else if confidence \<ge> 0.6 then yellow_circle @ '' **MEDIUM RISK**''
         else orange_circle @ '' **LOW RISK**'')
      else
        (if confidence \<ge> 0.8 then green_circle @ '' **VERY CONFIDENT**''
         else if confidence \<ge> 0.6 then yellow_circle @ '' **CONFIDENT**''
         else orange_circle @ '' **UNCERTAIN**''))"

text \<open>
  The local variables of a call that reaches the report (lines 225--313): the request
  itself stays in the arguments.
\<close>

record deepfake_job =
  job_media_file :: string
  job_media_type :: string
  job_model_configs :: "(string \<times> real) list"
  job_annotated_media_path :: "string option"
  job_overall_is_deepfake :: bool
  job_overall_status :: string
  job_overall_icon :: string
  job_avg_confidence :: real

text \<open>
  How the body of the \<^verbatim>\<open>try\<close> ends: one of the two early returns with a message, an
  exception raised in the body, or the end of the body.
\<close>

datatype deepfake_run = Rejected string | Raises exn | Completed deepfake_job

definition detect_deepfakes_run ::
  "float_runtime \<Rightarrow> world \<Rightarrow> string option \<Rightarrow> string option \<Rightarrow> string list \<Rightarrow> real \<Rightarrow> int
     \<Rightarrow> deepfake_run" where
  "detect_deepfakes_run rt w image_file video_file models_to_use confidence_threshold
     num_frames =
     (case select_media (files w) image_file video_file of
        None \<Rightarrow> Rejected no_media_message
      | Some (media_file, media_type) \<Rightarrow>
          if select_model_configs models_to_use = [] then Rejected no_models_message
          else
            (case normalize_weights (select_model_configs models_to_use) of
               Inl e \<Rightarrow> Raises e
             | Inr model_configs \<Rightarrow>
                 (case PipelineDeepfakeDetection w model_configs confidence_threshold of
                    Inl e \<Rightarrow> Raises e
                  | Inr pipeline \<Rightarrow>
                      (case pipeline media_file (path_join output_dir ''deepfake_detection'')
                              num_frames of
                         Inl e \<Rightarrow> Raises e
                       | Inr result \<Rightarrow>
                           Completed
                             \<lparr>job_media_file = media_file,
                              job_media_type = media_type,
                              job_model_configs = model_configs,
                              job_annotated_media_path = None,
                              job_overall_is_deepfake = result,
                              job_overall_status = (if result then ''DEEPFAKE'' else ''AUTHENTIC''),
                              job_overall_icon = (if result then rotating_light else check_mark),
                              job_avg_confidence =
                                (if result then confidence_threshold
                                 else float_sub rt 1.0 confidence_threshold)\<rparr>))))"

text \<open>Lines 315--358: the report.\<close>

definition results_text ::
  "float_runtime \<Rightarrow> string list \<Rightarrow> real \<Rightarrow> int \<Rightarrow> deepfake_job \<Rightarrow> string" where
  "results_text rt models_to_use confidence_threshold num_frames job =
     ''# '' @ clapper_board @ '' **'' @ title (job_media_type job) @
     '' Analysis Results**\<newline>\<newline>## '' @ bar_chart @
     '' **Summary**\<newline>- **File**: `'' @ basename (job_media_file job) @
     ''`\<newline>- **Media Type**: '' @ title (job_media_type job) @
     ''\<newline>- **Models Used**: '' @ str_join '', '' models_to_use @
     ''\<newline>- **Confidence Threshold**: '' @ fmt_pct1 rt confidence_threshold @
     ''\<newline>\<newline>---\<newline>\<newline>## '' @ direct_hit @
     '' **Overall Verdict**\<newline>### '' @ job_overall_icon job @
     '' **'' @ job_overall_status job @
     ''**\<newline>\<newline>**Pipeline Result**: '' @
     get_confidence_bar rt (job_avg_confidence job) 20 @
     ''\<newline>\<newline>---\<newline>\<newline>## '' @ magnifying_glass @
     '' **Technical Details**\<newline>- **Pipeline Models**: '' @
     str_join '', '' (map fst (job_model_configs job)) @
     ''\<newline>- **Model Weights**: '' @ repr_dict rt (job_model_configs job) @
     ''\<newline>- **Detection Algorithm**: Weighted Ensemble Pipeline\<newline>'' @
     (if job_media_type job = ''video''
      then ''- **Frames Analyzed**: '' @ str_int num_frames @ ''\<newline>'' else []) @
     ''\<newline>\<newline>---\<newline>\<newline>## '' @ light_bulb @ '' **Recommendation**\<newline>'' @
     (if job_overall_is_deepfake job
      then warning_sign @ variation_selector @
           '' **This media shows strong indicators of being a deepfake.** Exercise caution when sharing or believing its content.''
      else check_mark @
           '' **This media appears to be authentic.** However, always verify content from multiple sources.'') @
     ''\<newline>\<newline>---\<newline>\<newline>## '' @ information_source @ variation_selector @
     '' **About This Analysis**\<newline>This analysis uses multiple state-of-the-art AI models in an ensemble pipeline to detect potential deepfakes. The pipeline combines predictions from '' @
     str_nat (length (job_model_configs job)) @
     '' models with weighted averaging for improved accuracy. While highly accurate, no detection system is 100% perfect. Always use critical thinking and verify important content through multiple sources.\<newline>''"

text \<open>
  Lines 223--366: the handler with its \<^verbatim>\<open>except Exception\<close> clause, which turns an
  instance of \<^verbatim>\<open>Exception\<close> into a message and lets any other exception pass.
\<close>

definition detect_deepfakes ::
  "float_runtime \<Rightarrow> world \<Rightarrow> string option \<Rightarrow> string option \<Rightarrow> string list \<Rightarrow> real \<Rightarrow> int
     \<Rightarrow> exn + (string option \<times> string)" where
  "detect_deepfakes rt w image_file video_file models_to_use confidence_threshold num_frames =
     (case detect_deepfakes_run rt w image_file video_file models_to_use confidence_threshold
             num_frames of
        Rejected message \<Rightarrow> Inr (None, message)
      | Raises e \<Rightarrow>
          if is_Exception e then Inr (None, cross_mark @ '' **Error**: '' @ str_exn e)
          else Inl e
      | Completed job \<Rightarrow>
          Inr (job_annotated_media_path job,
               results_text rt models_to_use confidence_threshold num_frames job))"

subsection \<open>detect_faces\<close>

text \<open>Lines 99--103: the first candidate name that exists in the output folder.\<close>

fun first_existing :: "filesystem \<Rightarrow> string \<Rightarrow> string list \<Rightarrow> string option" where
  "first_existing fs output_folder [] = None"
| "first_existing fs output_folder (possible_name # possible_names) =
     (let potential_path = path_join output_folder possible_name
      in if fs_exists fs potential_path then Some potential_path
         else first_existing fs output_folder possible_names)"

text \<open>Lines 89--97.\<close>

definition possible_names :: "string \<Rightarrow> string list" where
  "possible_names image_path =
     (let image_name = basename image_path;
          name = fst (splitext image_name);
          ext = snd (splitext image_name)
      in [name @ ''_annotated'' @ ext, name @ ''_detected'' @ ext, name @ ''_detection'' @ ext])"

definition find_annotated_image :: "filesystem \<Rightarrow> string \<Rightarrow> string \<Rightarrow> string option" where
  "find_annotated_image fs output_folder image_path =
     first_existing fs output_folder (possible_names image_path)"

text \<open>Lines 106--110.\<close>

fun face_lines :: "float_runtime \<Rightarrow> nat \<Rightarrow> detection list \<Rightarrow> string" where
  "face_lines rt i [] = []"
| "face_lines rt i (d # ds) =
     ''Face '' @ str_nat (i + 1) @ '':\<newline>'' @
     ''  Confidence: '' @ fmt_fixed3 rt (bbox_confidence d) @ ''\<newline>'' @
     ''  Bounding Box: ('' @ str_int (bbox_x1 d) @ '', '' @ str_int (bbox_y1 d) @ '', '' @
       str_int (bbox_x2 d) @ '', '' @ str_int (bbox_y2 d) @ '')\<newline>\<newline>'' @
     face_lines rt (i + 1) ds"

definition faces_text :: "float_runtime \<Rightarrow> detection list \<Rightarrow> string" where
  "faces_text rt detections =
     ''Found '' @ str_nat (length detections) @ '' face(s)\<newline>\<newline>'' @
     face_lines rt 0 detections"

text \<open>
  Lines 50--120, the body of the \<^verbatim>\<open>try\<close>: \<open>Inl\<close> is an exception that reaches the outer
  \<^verbatim>\<open>except\<close> clause. The inner \<^verbatim>\<open>except Exception\<close> (lines 64--69) answers an instance
  of \<^verbatim>\<open>Exception\<close> from the creation of the detector and lets any other exception
  pass. The two \<^verbatim>\<open>print\<close> calls write to the standard output and are left out.
\<close>

definition detect_faces_body ::
  "float_runtime \<Rightarrow> world \<Rightarrow> string option \<Rightarrow> string
     \<Rightarrow> exn + (string option \<times> string option \<times> string)" where
  "detect_faces_body rt w image_path detection_model =
     (case image_path of
        None \<Rightarrow> Inr (None, None, ''Error: No image provided'')
      | Some p \<Rightarrow>
          if p = [] then Inr (None, None, ''Error: No image provided'')
          else if \<not> fs_exists (files w) p
          then Inr (None, None, ''Error: Image file not found: '' @ p)
          else
            (case FaceDetector_create w detection_model of
               Inl e \<Rightarrow>
                 if is_Exception e
                 then Inr (None, None,
                           ''Error creating detector '' @ [CHR 0x27] @ detection_model @
                           [CHR 0x27] @ '': '' @ str_exn e)
                 else Inl e
             | Inr detector \<Rightarrow>
                 (let output_folder =
                        path_join (path_join output_dir ''face_detection'') detection_model;
                      json_path = path_join output_folder ''detections.json''
                  in case detector (files w) p json_path output_folder of
                       Inl e \<Rightarrow> Inl e
                     | Inr (detections, fs) \<Rightarrow>
                         (let annotated_image_path = find_annotated_image fs output_folder p
                          in Inr (usable_path fs annotated_image_path,
                                  (if fs_exists fs json_path then Some json_path else None),
                                  faces_text rt detections)))))"

text \<open>Lines 49--123: the handler with its \<^verbatim>\<open>except Exception\<close> clause.\<close>

definition detect_faces ::
  "float_runtime \<Rightarrow> world \<Rightarrow> string option \<Rightarrow> string
     \<Rightarrow> exn + (string option \<times> string option \<times> string)" where
  "detect_faces rt w image_path detection_model =
     (case detect_faces_body rt w image_path detection_model of
        Inl e \<Rightarrow> if is_Exception e then Inr (None, None, ''Error: '' @ str_exn e) else Inl e
      | Inr response \<Rightarrow> Inr response)"

subsection \<open>reenact_face\<close>

text \<open>
  Lines 183--187 and 192--196: the first pattern, in the order of the list, for which
  \<^verbatim>\<open>glob.glob\<close> finds a file in the directory, and the first file found for it.
\<close>

fun first_glob :: "filesystem \<Rightarrow> string \<Rightarrow> string list \<Rightarrow> string option" where
  "first_glob fs dir [] = None"
| "first_glob fs dir (pattern # patterns) =
     (case fs_glob fs (path_join dir pattern) of
        [] \<Rightarrow> first_glob fs dir patterns
      | comparison_file # _ \<Rightarrow> Some comparison_file)"

text \<open>Lines 175--179.\<close>

definition comparison_patterns :: "string \<Rightarrow> string \<Rightarrow> string list" where
  "comparison_patterns source_name driving_name =
     [''comparison_'' @ source_name @ ''_by_'' @ driving_name @ ''.mp4'',
      ''comparison_'' @ source_name @ ''_by_*.mp4'',
      ''comparison_*.mp4'']"

text \<open>
  Lines 183--196: the search in \<^verbatim>\<open>search_dir\<close>, then, when that found nothing (or found
  the empty path, which is false as well), in the directory of \<^verbatim>\<open>result_path\<close>.
\<close>

definition find_comparison ::
  "filesystem \<Rightarrow> string \<Rightarrow> string \<Rightarrow> string list \<Rightarrow> string option" where
  "find_comparison fs search_dir result_path patterns =
     (let comparison_path = first_glob fs search_dir patterns
      in if \<not> truthy comparison_path
         then (case first_glob fs (dirname result_path) patterns of
                 Some comparison_file \<Rightarrow> Some comparison_file
               | None \<Rightarrow> comparison_path)
         else comparison_path)"

definition none_type_error :: exn where
  "none_type_error = TypeError ''expected str, bytes or os.PathLike object, not NoneType''"

text \<open>
  Lines 144--198, the body of the \<^verbatim>\<open>try\<close>. \<^verbatim>\<open>os.path.basename\<close> raises \<^verbatim>\<open>TypeError\<close> on
  \<^verbatim>\<open>None\<close>.
\<close>

definition reenact_face_body ::
  "world \<Rightarrow> string option \<Rightarrow> string option \<Rightarrow> string \<Rightarrow> bool
     \<Rightarrow> exn + (string option \<times> string option)" where
  "reenact_face_body w source_image driving_video reenactor_model resize_to_image_resolution =
     (case FaceReenactor_create w reenactor_model of
        Inl e \<Rightarrow> Inl e
      | Inr reenactor \<Rightarrow>
          (let output_folder =
                 path_join (path_join output_dir ''face_reenactment'') reenactor_model
           in case os_makedirs w (files w) output_folder of
                Inl e \<Rightarrow> Inl e
              | Inr fs \<Rightarrow>
                  (case source_image of
                     None \<Rightarrow> Inl none_type_error
                   | Some source \<Rightarrow>
                       (let source_name = fst (splitext (basename source));
                            output_path = path_join output_folder (source_name @ ''_reenacted'')
                        in case reenactor fs source driving_video output_path
                                  resize_to_image_resolution of
                             Inl e \<Rightarrow> Inl e
                           | Inr (result_path, fs') \<Rightarrow>
                               (case driving_video of
                                  None \<Rightarrow> Inl none_type_error
                                | Some driving \<Rightarrow>
                                    (let driving_name = fst (splitext (basename driving));
                                         search_dir = output_path
                                     in Inr (Some result_path,
                                             find_comparison fs' search_dir result_path
                                               (comparison_patterns source_name
                                                  driving_name))))))))"

text \<open>Lines 143--201: the handler with its \<^verbatim>\<open>except Exception\<close> clause.\<close>

definition reenact_face ::
  "world \<Rightarrow> string option \<Rightarrow> string option \<Rightarrow> string \<Rightarrow> bool
     \<Rightarrow> exn + (string option \<times> string option)" where
  "reenact_face w source_image driving_video reenactor_model resize_to_image_resolution =
     (case reenact_face_body w source_image driving_video reenactor_model
             resize_to_image_resolution of
        Inl e \<Rightarrow> if is_Exception e then Inr (None, None) else Inl e
      | Inr response \<Rightarrow> Inr response)"

subsection \<open>A runtime to compute with\<close>

text \<open>
  One \<open>float_runtime\<close>, to run the handlers on concrete requests: it subtracts and
  multiplies exactly and prints the decimal expansion of the number, rounded
  half-to-even at the last place. On the requests evaluated below it does what CPython
  does: \<open>1.0 - 0.5\<close> is \<open>0.5\<close>, \<open>0.8 * 20\<close> is \<open>16.0\<close>, \<open>0.5\<close> prints as \<^verbatim>\<open>50.0%\<close> and \<^verbatim>\<open>0.5\<close>,
  \<open>0.8\<close> as \<^verbatim>\<open>80.0%\<close>, and \<open>1.0\<close> as \<^verbatim>\<open>1.0\<close>.
\<close>

definition round_half_even :: "real \<Rightarrow> int" where
  "round_half_even x =
     (let f = \<lfloor>x\<rfloor>; d = x - of_int f
      in if d < 1 / 2 then f else if d > 1 / 2 then f + 1 else if even f then f else f + 1)"

definition decimal_fixed :: "nat \<Rightarrow> real \<Rightarrow> string" where
  "decimal_fixed k x =
     (let n = nat (round_half_even (\<bar>x\<bar> * 10 ^ k));
          digits = str_nat (n mod 10 ^ k)
      in (if x < 0 then ''-'' else []) @ str_nat (n div 10 ^ k) @ ''.'' @
         replicate (k - length digits) CHR ''0'' @ digits)"

fun fraction_digits :: "nat \<Rightarrow> real \<Rightarrow> string" where
  "fraction_digits 0 r = []"
| "fraction_digits (Suc n) r =
     (let d = \<lfloor>r * 10\<rfloor>
      in (''0123456789'' ! nat d) #
         (if r * 10 - of_int d = 0 then [] else fraction_digits n (r * 10 - of_int d)))"

definition decimal_repr :: "real \<Rightarrow> string" where
  "decimal_repr x =
     (if x < 0 then ''-'' else []) @ str_nat (nat \<lfloor>\<bar>x\<bar>\<rfloor>) @ ''.'' @
     fraction_digits 17 (\<bar>x\<bar> - of_int \<lfloor>\<bar>x\<bar>\<rfloor>)"

definition decimal_runtime :: float_runtime where
  "decimal_runtime =
     \<lparr>float_sub = (\<lambda>a b. a - b),
      float_mul = (\<lambda>a b. a * b),
      fmt_pct1 = (\<lambda>x. decimal_fixed 1 (x * 100) @ ''%''),
      fmt_fixed3 = decimal_fixed 3,
      fmt_repr = decimal_repr\<rparr>"

subsection \<open>What glob finds\<close>

text \<open>
  \<^verbatim>\<open>glob.glob\<close> is the \<open>fs_glob\<close> of the file system. Two facts about it tie it to the
  files that exist: it never lists the empty path, and for a pattern without the
  characters \<^verbatim>\<open>*\<close>, \<^verbatim>\<open>?\<close>, \<^verbatim>\<open>[\<close> (\<^verbatim>\<open>glob.has_magic\<close>) that names an existing file it
  lists that path and nothing else.
\<close>

definition has_magic :: "string \<Rightarrow> bool" where
  "has_magic pattern =
     list_ex (\<lambda>c. c = CHR ''*'' \<or> c = CHR ''?'' \<or> c = CHR ''['') pattern"

definition glob_consistent :: "filesystem \<Rightarrow> bool" where
  "glob_consistent fs =
     (\<forall>pattern.
        [] \<notin> set (fs_glob fs pattern) \<and>
        (\<not> has_magic pattern \<and> fs_exists fs pattern \<longrightarrow> fs_glob fs pattern = [pattern]))"

subsection \<open>Searching a text\<close>

text \<open>\<^verbatim>\<open>sub in s\<close>, to state what a report does or does not show.\<close>

fun starts_with :: "string \<Rightarrow> string \<Rightarrow> bool" where
  "starts_with s [] = True"
| "starts_with [] (c # cs) = False"
| "starts_with (x # xs) (c # cs) = (x = c \<and> starts_with xs cs)"

fun contains :: "string \<Rightarrow> string \<Rightarrow> bool" where
  "contains [] sub = (sub = [])"
| "contains (x # xs) sub = (starts_with (x # xs) sub \<or> contains xs sub)"

subsection \<open>Concrete worlds\<close>

text \<open>
  A file system given by the paths that exist and by what \<^verbatim>\<open>glob\<close> lists for the patterns
  with special characters; a pattern without them is listed when it exists.
\<close>

definition listed_files :: "string list \<Rightarrow> (string \<times> string list) list \<Rightarrow> filesystem" where
  "listed_files existing listings =
     \<lparr>fs_exists = (\<lambda>p. p \<in> set existing),
      fs_glob =
        (\<lambda>pattern.
           case map_of listings pattern of
             Some found \<Rightarrow> found
           | None \<Rightarrow> if pattern \<in> set existing then [pattern] else [])\<rparr>"

text \<open>
  \<open>sample_world\<close>: the files \<^verbatim>\<open>face.jpg\<close> and \<^verbatim>\<open>clip.mp4\<close> exist, no detector and no
  reenactor can be created, and the pipeline calls every media file a deepfake.
\<close>

definition sample_files :: filesystem where
  "sample_files = listed_files [''face.jpg'', ''clip.mp4''] []"

definition sample_world :: world where
  "sample_world =
     \<lparr>files = sample_files,
      os_makedirs = (\<lambda>fs p. Inr fs),
      FaceDetector_create = (\<lambda>m. Inl (Raised ''Unknown model'')),
      FaceReenactor_create = (\<lambda>m. Inl (Raised ''Unknown model'')),
      PipelineDeepfakeDetection = (\<lambda>cfg t. Inr (\<lambda>media out n. Inr True))\<rparr>"

text \<open>
  \<open>studio_world\<close>: the files \<^verbatim>\<open>face.jpg\<close> and \<^verbatim>\<open>drive.mp4\<close> exist.
  \<^item> The \<^verbatim>\<open>mediapipe\<close> detector is created and raises on every image; the \<^verbatim>\<open>blazeface\<close>
    detector is interrupted from the keyboard while it runs; the \<^verbatim>\<open>ultralight\<close>
    detector finds one face and leaves \<^verbatim>\<open>face_detected.jpg\<close>, \<^verbatim>\<open>face_detection.jpg\<close> and
    \<^verbatim>\<open>detections.json\<close> in its output folder.
  \<^item> The \<^verbatim>\<open>tps\<close> reenactor writes \<^verbatim>\<open>result.mp4\<close> and \<^verbatim>\<open>comparison_face_by_drive.mp4\<close> into
    its output directory, where \<^verbatim>\<open>comparison_face_by_dance.mp4\<close> is left from an earlier
    job, and \<^verbatim>\<open>glob\<close> lists the older file first.
  \<^item> The pipeline calls \<^verbatim>\<open>face.jpg\<close> a deepfake and nothing else.
\<close>

definition detected_dir :: string where
  "detected_dir = ''gradio_output/face_detection/ultralight''"

definition detected_files :: filesystem where
  "detected_files =
     listed_files
       [''face.jpg'', ''drive.mp4'',
        detected_dir @ ''/face_detected.jpg'',
        detected_dir @ ''/face_detection.jpg'',
        detected_dir @ ''/detections.json'']
       []"

definition one_face :: "detection list" where
  "one_face =
     [\<lparr>bbox_x1 = 40, bbox_y1 = 30, bbox_x2 = 200, bbox_y2 = 220, bbox_confidence = 0.5\<rparr>]"

definition reenacted_dir :: string where
  "reenacted_dir = ''gradio_output/face_reenactment/tps/face_reenacted''"

definition reenacted_files :: filesystem where
  "reenacted_files =
     listed_files
       [''face.jpg'', ''drive.mp4'',
        reenacted_dir @ ''/result.mp4'',
        reenacted_dir @ ''/comparison_face_by_dance.mp4'',
        reenacted_dir @ ''/comparison_face_by_drive.mp4'']
       [(reenacted_dir @ ''/comparison_face_by_*.mp4'',
         [reenacted_dir @ ''/comparison_face_by_dance.mp4'',
          reenacted_dir @ ''/comparison_face_by_drive.mp4'']),
        (reenacted_dir @ ''/comparison_*.mp4'',
         [reenacted_dir @ ''/comparison_face_by_dance.mp4'',
          reenacted_dir @ ''/comparison_face_by_drive.mp4''])]"

definition studio_files :: filesystem where
  "studio_files = listed_files [''face.jpg'', ''drive.mp4''] []"

definition studio_world :: world where
  "studio_world =
     \<lparr>files = studio_files,
      os_makedirs = (\<lambda>fs p. Inr fs),
      FaceDetector_create =
        (\<lambda>m. if m = ''mediapipe''
             then Inr (\<lambda>fs image json out. Inl (Raised ''cannot read image''))
             else if m = ''blazeface''
             then Inr (\<lambda>fs image json out. Inl KeyboardInterrupt)
             else if m = ''ultralight''
             then Inr (\<lambda>fs image json out. Inr (one_face, detected_files))
             else Inl (Raised ''Unknown model'')),
      FaceReenactor_create =
        (\<lambda>m. if m = ''tps''
             then Inr (\<lambda>fs source driving out resize.
                         Inr (path_join out ''result.mp4'', reenacted_files))
             else Inl (Raised ''Unknown model'')),
      PipelineDeepfakeDetection =
        (\<lambda>cfg t. Inr (\<lambda>media out n. Inr (media = ''face.jpg'')))\<rparr>"

text \<open>
  \<open>upper_world\<close>: as \<open>studio_world\<close>, but the \<^verbatim>\<open>tps\<close> reenactor leaves the comparison
  video one level above its output directory, in \<^verbatim>\<open>gradio_output/face_reenactment/tps\<close>,
  and the result in the output directory.
\<close>

definition upper_dir :: string where
  "upper_dir = ''gradio_output/face_reenactment/tps''"

definition upper_files :: filesystem where
  "upper_files =
     listed_files
       [''face.jpg'', ''drive.mp4'',
        reenacted_dir @ ''/result.mp4'',
        upper_dir @ ''/comparison_face_by_drive.mp4'']
       [(upper_dir @ ''/comparison_face_by_*.mp4'',
         [upper_dir @ ''/comparison_face_by_drive.mp4'']),
        (upper_dir @ ''/comparison_*.mp4'',
         [upper_dir @ ''/comparison_face_by_drive.mp4''])]"

definition upper_world :: world where
  "upper_world =
     studio_world
       \<lparr>FaceReenactor_create :=
          (\<lambda>m. if m = ''tps''
               then Inr (\<lambda>fs source driving out resize.
                           Inr (path_join out ''result.mp4'', upper_files))
               else Inl (Raised ''Unknown model''))\<rparr>"

section \<open>Properties\<close>

subsection \<open>Weights\<close>

lemma select_model_configs_cases:
  "select_model_configs ms =
     (if ''resnet_inception'' \<in> set ms
      then (if ''efficientnet'' \<in> set ms
            then [(''resnet_inception'', 0.5), (''efficientnet'', 0.5)]
            else [(''resnet_inception'', 0.5)])
      else (if ''efficientnet'' \<in> set ms then [(''efficientnet'', 0.5)] else []))"
  by (simp add: select_model_configs_def)

lemma select_model_configs_empty:
  "select_model_configs ms = [] \<longleftrightarrow>
     ''resnet_inception'' \<notin> set ms \<and> ''efficientnet'' \<notin> set ms"
  by (simp add: select_model_configs_def)

lemma divide_values_positive:
  "total_weight \<noteq> 0 \<Longrightarrow>
     divide_values items total_weight = Inr (map (\<lambda>(k, v). (k, v / total_weight)) items)"
  by (induction items) (auto simp: py_truediv_def)

lemma normalize_weights_never_raises: "normalize_weights cfg \<noteq> Inl e"
  by (simp add: normalize_weights_def Let_def divide_values_positive)

lemma normalize_selected:
  "normalize_weights (select_model_configs ms) =
     Inr (if ''resnet_inception'' \<in> set ms
          then (if ''efficientnet'' \<in> set ms
                then [(''resnet_inception'', 0.5), (''efficientnet'', 0.5)]
                else [(''resnet_inception'', 1)])
          else (if ''efficientnet'' \<in> set ms then [(''efficientnet'', 1)] else []))"
  by (simp add: select_model_configs_cases normalize_weights_def py_truediv_def)

lemma detect_deepfakes_run_CompletedE:
  assumes "detect_deepfakes_run rt w image_file video_file models_to_use confidence_threshold
             num_frames = Completed job"
  obtains media_file media_type model_configs pipeline result where
    "select_media (files w) image_file video_file = Some (media_file, media_type)"
    "select_model_configs models_to_use \<noteq> []"
    "normalize_weights (select_model_configs models_to_use) = Inr model_configs"
    "PipelineDeepfakeDetection w model_configs confidence_threshold = Inr pipeline"
    "pipeline media_file (path_join output_dir ''deepfake_detection'') num_frames = Inr result"
    "job = \<lparr>job_media_file = media_file,
            job_media_type = media_type,
            job_model_configs = model_configs,
            job_annotated_media_path = None,
            job_overall_is_deepfake = result,
            job_overall_status = (if result then ''DEEPFAKE'' else ''AUTHENTIC''),
            job_overall_icon = (if result then rotating_light else check_mark),
            job_avg_confidence =
              (if result then confidence_threshold
               else float_sub rt 1.0 confidence_threshold)\<rparr>"
  using assms unfolding detect_deepfakes_run_def
  by (auto split: option.splits sum.splits if_splits)

lemma detect_deepfakes_run_CompletedI:
  assumes "select_media (files w) image_file video_file = Some (media_file, media_type)"
      and "select_model_configs models_to_use \<noteq> []"
      and "normalize_weights (select_model_configs models_to_use) = Inr model_configs"
      and "PipelineDeepfakeDetection w model_configs confidence_threshold = Inr pipeline"
      and "pipeline media_file (path_join output_dir ''deepfake_detection'') num_frames =
             Inr result"
  shows "detect_deepfakes_run rt w image_file video_file models_to_use confidence_threshold
           num_frames =
         Completed
           \<lparr>job_media_file = media_file,
            job_media_type = media_type,
            job_model_configs = model_configs,
            job_annotated_media_path = None,
            job_overall_is_deepfake = result,
            job_overall_status = (if result then ''DEEPFAKE'' else ''AUTHENTIC''),
            job_overall_icon = (if result then rotating_light else check_mark),
            job_avg_confidence =
              (if result then confidence_threshold
               else float_sub rt 1.0 confidence_threshold)\<rparr>"
  using assms by (simp add: detect_deepfakes_run_def)

text \<open>
  C1. Whenever at least one of the two registered models is among the selected
  identifiers, \<^verbatim>\<open>model_configs\<close> holds exactly the registered identifiers that were
  selected, in the order of the registry, each with the base weight \<open>0.5\<close>; the
  normalization returns every entry divided by the sum of the base weights, that is
  \<open>0.5\<close> and \<open>0.5\<close> when both are selected and \<open>1\<close> for the only one otherwise; the
  normalized weights sum to \<open>1\<close> (so also within \<open>10\<^sup>-\<^sup>9\<close> of it); and a job that reaches
  the report carries exactly this map. The hypothesis is weaker than the claim's:
  identifiers outside the registry and repetitions may be present.
\<close>

theorem weights_sum_to_one:
  assumes "''resnet_inception'' \<in> set models_to_use \<or> ''efficientnet'' \<in> set models_to_use"
  shows "select_model_configs models_to_use =
           map (\<lambda>k. (k, 0.5))
             (filter (\<lambda>k. k \<in> set models_to_use) [''resnet_inception'', ''efficientnet''])
       \<and> normalize_weights (select_model_configs models_to_use) =
           Inr (map (\<lambda>(k, v). (k, v / sum_list (map snd (select_model_configs models_to_use))))
                  (select_model_configs models_to_use))
       \<and> normalize_weights (select_model_configs models_to_use) =
           Inr (if ''resnet_inception'' \<in> set models_to_use
                then (if ''efficientnet'' \<in> set models_to_use
                      then [(''resnet_inception'', 0.5), (''efficientnet'', 0.5)]
                      else [(''resnet_inception'', 1)])
                else [(''efficientnet'', 1)])
       \<and> (case normalize_weights (select_model_configs models_to_use) of
            Inl e \<Rightarrow> False
          | Inr model_configs \<Rightarrow>
              sum_list (map snd model_configs) = 1
            \<and> \<bar>sum_list (map snd model_configs) - 1\<bar> \<le> 1 / 10 ^ 9)
       \<and> (\<forall>job. detect_deepfakes_run rt w image_file video_file models_to_use
                   confidence_threshold num_frames = Completed job \<longrightarrow>
              normalize_weights (select_model_configs models_to_use) =
                Inr (job_model_configs job))"
proof -
  have "normalize_weights (select_model_configs models_to_use) = Inr (job_model_configs job)"
    if "detect_deepfakes_run rt w image_file video_file models_to_use confidence_threshold
          num_frames = Completed job" for job
    using that by (elim detect_deepfakes_run_CompletedE) simp
  moreover have "select_model_configs models_to_use =
      map (\<lambda>k. (k, 0.5))
        (filter (\<lambda>k. k \<in> set models_to_use) [''resnet_inception'', ''efficientnet''])"
    by (simp add: select_model_configs_def)
  moreover have "normalize_weights (select_model_configs models_to_use) =
      Inr (map (\<lambda>(k, v). (k, v / sum_list (map snd (select_model_configs models_to_use))))
             (select_model_configs models_to_use))"
    using assms
    by (auto simp: select_model_configs_cases normalize_weights_def py_truediv_def)
  moreover have "normalize_weights (select_model_configs models_to_use) =
      Inr (if ''resnet_inception'' \<in> set models_to_use
           then (if ''efficientnet'' \<in> set models_to_use
                 then [(''resnet_inception'', 0.5), (''efficientnet'', 0.5)]
                 else [(''resnet_inception'', 1)])
           else [(''efficientnet'', 1)])"
    using assms by (auto simp: normalize_selected)
  moreover have "(case normalize_weights (select_model_configs models_to_use) of
        Inl e \<Rightarrow> False
      | Inr model_configs \<Rightarrow>
          sum_list (map snd model_configs) = 1
        \<and> \<bar>sum_list (map snd model_configs) - 1\<bar> \<le> 1 / 10 ^ 9)"
    using assms by (auto simp: normalize_selected)
  ultimately show ?thesis by blast
qed

theorem weights_sum_to_one_witness:
  "(''resnet_inception'' \<in> set [''efficientnet'', ''resnet_inception'']
      \<or> ''efficientnet'' \<in> set [''efficientnet'', ''resnet_inception''])
   \<and> select_model_configs [''efficientnet'', ''resnet_inception''] =
       [(''resnet_inception'', 0.5), (''efficientnet'', 0.5)]
   \<and> normalize_weights (select_model_configs [''efficientnet'', ''resnet_inception'']) =
       Inr [(''resnet_inception'', 0.5), (''efficientnet'', 0.5)]
   \<and> (''resnet_inception'' \<in> set [''efficientnet''] \<or> ''efficientnet'' \<in> set [''efficientnet''])
   \<and> select_model_configs [''efficientnet''] = [(''efficientnet'', 0.5)]
   \<and> normalize_weights (select_model_configs [''efficientnet'']) = Inr [(''efficientnet'', 1)]
   \<and> sum_list (map snd [(''resnet_inception'', 0.5 :: real), (''efficientnet'', 0.5)]) = 1"
  using weights_sum_to_one [where models_to_use = "[''efficientnet'', ''resnet_inception'']"
          and rt = decimal_runtime and w = sample_world and image_file = "Some ''face.jpg''"
          and video_file = None and confidence_threshold = "0.5" and num_frames = 11]
        weights_sum_to_one [where models_to_use = "[''efficientnet'']"
          and rt = decimal_runtime and w = sample_world and image_file = "Some ''face.jpg''"
          and video_file = None and confidence_threshold = "0.5" and num_frames = 11]
  by (simp add: select_model_configs_def normalize_weights_def py_truediv_def)

subsection \<open>How a run of detect_deepfakes ends\<close>

lemma no_media_not_no_models: "no_media_message \<noteq> no_models_message"
  by (simp add: no_media_message_def no_models_message_def)

lemma usable_path_Some:
  "usable_path fs path = Some p \<longleftrightarrow> path = Some p \<and> p \<noteq> [] \<and> fs_exists fs p"
  by (auto simp: usable_path_def split: option.splits)

lemma usable_path_None:
  "usable_path fs path = None \<longleftrightarrow>
     path = None \<or> path = Some [] \<or> (\<exists>p. path = Some p \<and> \<not> fs_exists fs p)"
  by (auto simp: usable_path_def split: option.splits)

lemma select_media_None:
  "select_media fs image_file video_file = None \<longleftrightarrow>
     usable_path fs image_file = None \<and> usable_path fs video_file = None"
  by (simp add: select_media_def split: option.splits)

lemma run_without_media:
  "select_media (files w) image_file video_file = None \<Longrightarrow>
     detect_deepfakes_run rt w image_file video_file models_to_use confidence_threshold
       num_frames = Rejected no_media_message"
  by (simp add: detect_deepfakes_run_def)

lemma run_with_media:
  "select_media (files w) image_file video_file = Some m \<Longrightarrow>
     detect_deepfakes_run rt w image_file video_file models_to_use confidence_threshold
       num_frames \<noteq> Rejected no_media_message"
  using no_media_not_no_models
  by (cases m) (auto simp: detect_deepfakes_run_def split: sum.splits)

lemma run_without_models:
  "select_media (files w) image_file video_file = Some m \<Longrightarrow>
   select_model_configs models_to_use = [] \<Longrightarrow>
     detect_deepfakes_run rt w image_file video_file models_to_use confidence_threshold
       num_frames = Rejected no_models_message"
  by (cases m) (simp add: detect_deepfakes_run_def)

lemma sample_exists:
  "fs_exists sample_files p \<longleftrightarrow> p = ''face.jpg'' \<or> p = ''clip.mp4''"
  by (auto simp: sample_files_def listed_files_def)

lemma studio_exists:
  "fs_exists studio_files p \<longleftrightarrow> p = ''face.jpg'' \<or> p = ''drive.mp4''"
  by (auto simp: studio_files_def listed_files_def)

text \<open>Runs on concrete requests; the numerals are written as \<open>simp\<close> normalizes them.\<close>

lemma sample_run:
  "detect_deepfakes_run decimal_runtime sample_world (Some ''face.jpg'') None [''efficientnet'']
     (4 / 5) 11 =
     Completed
       \<lparr>job_media_file = ''face.jpg'', job_media_type = ''image'',
        job_model_configs = [(''efficientnet'', 1)], job_annotated_media_path = None,
        job_overall_is_deepfake = True, job_overall_status = ''DEEPFAKE'',
        job_overall_icon = rotating_light, job_avg_confidence = 4 / 5\<rparr>"
  by (simp add: detect_deepfakes_run_def select_media_def usable_path_def sample_world_def
        sample_exists select_model_configs_def normalize_weights_def py_truediv_def)

lemma studio_run:
  "detect_deepfakes_run decimal_runtime studio_world (Some ''face.jpg'') (Some ''drive.mp4'')
     [''efficientnet''] (4 / 5) 11 =
     Completed
       \<lparr>job_media_file = ''face.jpg'', job_media_type = ''image'',
        job_model_configs = [(''efficientnet'', 1)], job_annotated_media_path = None,
        job_overall_is_deepfake = True, job_overall_status = ''DEEPFAKE'',
        job_overall_icon = rotating_light, job_avg_confidence = 4 / 5\<rparr>"
  by (simp add: detect_deepfakes_run_def select_media_def usable_path_def studio_world_def
        studio_exists select_model_configs_def normalize_weights_def py_truediv_def)

lemma studio_video_run:
  "detect_deepfakes_run decimal_runtime studio_world (Some ''missing.jpg'') (Some ''drive.mp4'')
     [''efficientnet''] (1 / 2) 11 =
     Completed
       \<lparr>job_media_file = ''drive.mp4'', job_media_type = ''video'',
        job_model_configs = [(''efficientnet'', 1)], job_annotated_media_path = None,
        job_overall_is_deepfake = False, job_overall_status = ''AUTHENTIC'',
        job_overall_icon = check_mark, job_avg_confidence = 1 / 2\<rparr>"
  by (simp add: detect_deepfakes_run_def select_media_def usable_path_def studio_world_def
        studio_exists select_model_configs_def normalize_weights_def py_truediv_def
        decimal_runtime_def)

subsection \<open>No model selected\<close>

text \<open>
  C2, as the claim states it, fails: the media check comes first (lines 227--234), so a
  request with an empty selection and no media file is answered with the media message,
  not with the message about models.
\<close>

theorem no_models_without_media_counterexample:
  "select_model_configs [] = []
   \<and> detect_deepfakes decimal_runtime sample_world None None [] 0.5 11 =
       Inr (None, no_media_message)
   \<and> no_media_message \<noteq> no_models_message"
  by (simp add: detect_deepfakes_def detect_deepfakes_run_def select_media_def usable_path_def
        select_model_configs_def no_media_message_def no_models_message_def)

text \<open>
  C2, amended. For every request whose media check passes and whose selection holds
  neither registered identifier (empty, or unknown identifiers only), the handler
  returns no path and the message asking for a model, whatever the collaborators would
  do; and the normalization never raises, on any dictionary, so no division by zero can
  occur.
\<close>

theorem no_models_selected:
  assumes "select_media (files w) image_file video_file \<noteq> None"
      and "''resnet_inception'' \<notin> set models_to_use"
      and "''efficientnet'' \<notin> set models_to_use"
  shows "detect_deepfakes_run rt w image_file video_file models_to_use confidence_threshold
           num_frames = Rejected no_models_message
       \<and> detect_deepfakes rt w image_file video_file models_to_use confidence_threshold
           num_frames = Inr (None, no_models_message)
       \<and> (\<forall>model_configs e. normalize_weights model_configs \<noteq> Inl e)"
proof -
  from assms(1) obtain m where "select_media (files w) image_file video_file = Some m"
    by blast
  moreover from assms(2,3) have "select_model_configs models_to_use = []"
    by (simp add: select_model_configs_empty)
  ultimately have "detect_deepfakes_run rt w image_file video_file models_to_use
      confidence_threshold num_frames = Rejected no_models_message"
    by (rule run_without_models)
  then show ?thesis
    by (simp add: detect_deepfakes_def normalize_weights_never_raises)
qed

theorem no_models_selected_witness:
  "select_media (files sample_world) (Some ''face.jpg'') None \<noteq> None
   \<and> ''resnet_inception'' \<notin> set [''xception'']
   \<and> ''efficientnet'' \<notin> set [''xception'']
   \<and> detect_deepfakes decimal_runtime sample_world (Some ''face.jpg'') None [''xception''] 0.5 11 =
       Inr (None, no_models_message)"
  using no_models_selected [where w = sample_world and image_file = "Some ''face.jpg''"
          and video_file = None and models_to_use = "[''xception'']" and rt = decimal_runtime
          and confidence_threshold = "0.5" and num_frames = 11]
  by (simp add: select_media_def usable_path_def sample_world_def sample_exists)

subsection \<open>The confidence shown\<close>

text \<open>
  C3. Whenever the media check passes, a registered model is selected and the pipeline,
  built on the normalized weights, returns the verdict \<open>result\<close> for the media file, the
  run reaches the report with that verdict, and its \<^verbatim>\<open>avg_confidence\<close> is the threshold
  when the verdict is deepfake and \<^verbatim>\<open>1.0 - confidence_threshold\<close>, the subtraction of the
  runtime, when it is authentic. At threshold \<open>0.5\<close> it is \<open>0.5\<close> for both verdicts
  (doubles compute \<open>1.0 - 0.5\<close> exactly: the runtime returns \<open>0.5\<close>); at \<open>0.8\<close> with a
  deepfake verdict it is \<open>0.8\<close>. The response is the report of that job.
\<close>

theorem effective_confidence:
  assumes "select_media (files w) image_file video_file = Some (media_file, media_type)"
      and "''resnet_inception'' \<in> set models_to_use \<or> ''efficientnet'' \<in> set models_to_use"
      and "normalize_weights (select_model_configs models_to_use) = Inr model_configs"
      and "PipelineDeepfakeDetection w model_configs confidence_threshold = Inr pipeline"
      and "pipeline media_file (path_join output_dir ''deepfake_detection'') num_frames =
             Inr result"
  shows "\<exists>job. detect_deepfakes_run rt w image_file video_file models_to_use
                 confidence_threshold num_frames = Completed job
             \<and> job_overall_is_deepfake job = result
             \<and> job_avg_confidence job =
                 (if result then confidence_threshold
                  else float_sub rt 1 confidence_threshold)
             \<and> (confidence_threshold = 0.5 \<and> float_sub rt 1 0.5 = 0.5 \<longrightarrow>
                  job_avg_confidence job = 0.5)
             \<and> (confidence_threshold = 0.8 \<and> result \<longrightarrow> job_avg_confidence job = 0.8)
             \<and> detect_deepfakes rt w image_file video_file models_to_use confidence_threshold
                 num_frames =
               Inr (None, results_text rt models_to_use confidence_threshold num_frames job)"
proof -
  define job where "job =
     \<lparr>job_media_file = media_file,
      job_media_type = media_type,
      job_model_configs = model_configs,
      job_annotated_media_path = None,
      job_overall_is_deepfake = result,
      job_overall_status = (if result then ''DEEPFAKE'' else ''AUTHENTIC''),
      job_overall_icon = (if result then rotating_light else check_mark),
      job_avg_confidence =
        (if result then confidence_threshold else float_sub rt 1.0 confidence_threshold)\<rparr>"
  from assms(2) have "select_model_configs models_to_use \<noteq> []"
    by (simp add: select_model_configs_empty)
  from detect_deepfakes_run_CompletedI [OF assms(1) this assms(3,4,5), of rt]
  have run: "detect_deepfakes_run rt w image_file video_file models_to_use
      confidence_threshold num_frames = Completed job"
    by (simp add: job_def)
  have verdict: "job_overall_is_deepfake job = result"
    by (simp add: job_def)
  have avg: "job_avg_confidence job =
      (if result then confidence_threshold else float_sub rt 1 confidence_threshold)"
    by (simp add: job_def)
  have half: "job_avg_confidence job = 0.5"
    if "confidence_threshold = 0.5 \<and> float_sub rt 1 0.5 = 0.5"
    using that avg by (cases result) (simp_all only: if_True if_False)
  have high: "job_avg_confidence job = 0.8" if "confidence_threshold = 0.8 \<and> result"
    using that avg by (simp only: if_True)
  have "detect_deepfakes rt w image_file video_file models_to_use confidence_threshold
      num_frames =
    Inr (None, results_text rt models_to_use confidence_threshold num_frames job)"
    using run by (simp add: detect_deepfakes_def job_def)
  with run verdict avg half high show ?thesis by blast
qed

theorem effective_confidence_witness:
  "select_media (files sample_world) (Some ''face.jpg'') None = Some (''face.jpg'', ''image'')
   \<and> normalize_weights (select_model_configs [''efficientnet'']) = Inr [(''efficientnet'', 1)]
   \<and> (\<exists>job. detect_deepfakes_run decimal_runtime sample_world (Some ''face.jpg'') None
               [''efficientnet''] 0.8 11 = Completed job
           \<and> job_overall_is_deepfake job = True
           \<and> job_avg_confidence job = 0.8)
   \<and> select_media (files studio_world) (Some ''missing.jpg'') (Some ''drive.mp4'') =
       Some (''drive.mp4'', ''video'')
   \<and> float_sub decimal_runtime 1 0.5 = 0.5
   \<and> (\<exists>job. detect_deepfakes_run decimal_runtime studio_world (Some ''missing.jpg'')
               (Some ''drive.mp4'') [''efficientnet''] 0.5 11 = Completed job
           \<and> job_overall_is_deepfake job = False
           \<and> job_avg_confidence job = 0.5)"
proof -
  have norm: "normalize_weights (select_model_configs [''efficientnet'']) =
      Inr [(''efficientnet'', 1)]"
    by (simp add: normalize_selected)
  have sel1: "select_media (files sample_world) (Some ''face.jpg'') None =
      Some (''face.jpg'', ''image'')"
    by (simp add: select_media_def usable_path_def sample_world_def sample_exists)
  have sel2: "select_media (files studio_world) (Some ''missing.jpg'') (Some ''drive.mp4'') =
      Some (''drive.mp4'', ''video'')"
    by (simp add: select_media_def usable_path_def studio_world_def studio_exists)
  have sub: "float_sub decimal_runtime 1 0.5 = 0.5"
    by (simp add: decimal_runtime_def)
  have reg: "''resnet_inception'' \<in> set [''efficientnet''] \<or>
      ''efficientnet'' \<in> set [''efficientnet'']"
    by simp
  have create1: "PipelineDeepfakeDetection sample_world [(''efficientnet'', 1)] 0.8 =
      Inr (\<lambda>media out n. Inr True)"
    by (simp add: sample_world_def)
  have detect1: "(\<lambda>media out n. Inr True) ''face.jpg''
      (path_join output_dir ''deepfake_detection'') (11 :: int) = (Inr True :: exn + bool)"
    by simp
  have create2: "PipelineDeepfakeDetection studio_world [(''efficientnet'', 1)] 0.5 =
      Inr (\<lambda>media out n. Inr (media = ''face.jpg''))"
    by (simp add: studio_world_def)
  have detect2: "(\<lambda>media out n. Inr (media = ''face.jpg'')) ''drive.mp4''
      (path_join output_dir ''deepfake_detection'') (11 :: int) = (Inr False :: exn + bool)"
    by simp
  have "\<exists>job. detect_deepfakes_run decimal_runtime sample_world (Some ''face.jpg'') None
               [''efficientnet''] 0.8 11 = Completed job
           \<and> job_overall_is_deepfake job = True
           \<and> job_avg_confidence job = 0.8"
    using effective_confidence [OF sel1 reg norm create1 detect1, of decimal_runtime]
    by blast
  moreover have "\<exists>job. detect_deepfakes_run decimal_runtime studio_world (Some ''missing.jpg'')
               (Some ''drive.mp4'') [''efficientnet''] 0.5 11 = Completed job
           \<and> job_overall_is_deepfake job = False
           \<and> job_avg_confidence job = 0.5"
    using effective_confidence [OF sel2 reg norm create2 detect2, of decimal_runtime] sub
    by blast
  ultimately show ?thesis using norm sel1 sel2 sub by blast
qed

subsection \<open>Which media file is used\<close>

text \<open>
  C4, as the claim states it, fails: a request that supplies an image and a video, both
  existing, is not rejected. The run reaches the report, on the image.
\<close>

theorem both_media_counterexample:
  "fs_exists (files sample_world) ''face.jpg'' \<and> fs_exists (files sample_world) ''clip.mp4''
   \<and> detect_deepfakes_run decimal_runtime sample_world (Some ''face.jpg'') (Some ''clip.mp4'')
        [''efficientnet''] 0.5 11 =
       Completed
         \<lparr>job_media_file = ''face.jpg'', job_media_type = ''image'',
          job_model_configs = [(''efficientnet'', 1)], job_annotated_media_path = None,
          job_overall_is_deepfake = True, job_overall_status = ''DEEPFAKE'',
          job_overall_icon = rotating_light, job_avg_confidence = 0.5\<rparr>"
  by (simp add: detect_deepfakes_run_def select_media_def usable_path_def sample_world_def
        sample_exists select_model_configs_def normalize_weights_def py_truediv_def)

text \<open>
  C4, amended. A request is answered with the media message when neither input is
  usable (usable: given, not empty, and naming an existing file), in particular when
  neither is given; as soon as one input is usable the request is not rejected for its
  media, also when both are given.
\<close>

theorem media_validation:
  "(usable_path (files w) image_file = None \<and> usable_path (files w) video_file = None
      \<longrightarrow> detect_deepfakes rt w image_file video_file models_to_use confidence_threshold
            num_frames = Inr (None, no_media_message))
   \<and> (usable_path (files w) image_file \<noteq> None \<or> usable_path (files w) video_file \<noteq> None
      \<longrightarrow> detect_deepfakes_run rt w image_file video_file models_to_use confidence_threshold
            num_frames \<noteq> Rejected no_media_message)
   \<and> detect_deepfakes rt w None None models_to_use confidence_threshold num_frames =
       Inr (None, no_media_message)"
proof -
  have "detect_deepfakes rt w image_file video_file models_to_use confidence_threshold
          num_frames = Inr (None, no_media_message)"
    if "usable_path (files w) image_file = None" "usable_path (files w) video_file = None"
    using that run_without_media [of w image_file video_file rt]
    by (simp add: detect_deepfakes_def select_media_None)
  moreover have "detect_deepfakes_run rt w image_file video_file models_to_use
          confidence_threshold num_frames \<noteq> Rejected no_media_message"
    if "usable_path (files w) image_file \<noteq> None \<or> usable_path (files w) video_file \<noteq> None"
  proof -
    from that have "select_media (files w) image_file video_file \<noteq> None"
      by (simp add: select_media_None)
    then show ?thesis using run_with_media by blast
  qed
  moreover have "detect_deepfakes rt w None None models_to_use confidence_threshold
          num_frames = Inr (None, no_media_message)"
    by (simp add: detect_deepfakes_def run_without_media select_media_None usable_path_def)
  ultimately show ?thesis by blast
qed

theorem media_validation_witness:
  "usable_path (files sample_world) (Some ''missing.jpg'') = None
   \<and> usable_path (files sample_world) (Some []) = None
   \<and> detect_deepfakes decimal_runtime sample_world (Some ''missing.jpg'') (Some [])
        [''efficientnet''] 0.5 11 = Inr (None, no_media_message)
   \<and> usable_path (files sample_world) (Some ''clip.mp4'') \<noteq> None
   \<and> detect_deepfakes_run decimal_runtime sample_world (Some ''missing.jpg'')
        (Some ''clip.mp4'') [''efficientnet''] 0.5 11 \<noteq> Rejected no_media_message"
  using media_validation [where w = sample_world and image_file = "Some ''missing.jpg''"
          and video_file = "Some []" and rt = decimal_runtime
          and models_to_use = "[''efficientnet'']" and confidence_threshold = "0.5"
          and num_frames = 11]
        media_validation [where w = sample_world and image_file = "Some ''missing.jpg''"
          and video_file = "Some ''clip.mp4''" and rt = decimal_runtime
          and models_to_use = "[''efficientnet'']" and confidence_threshold = "0.5"
          and num_frames = 11]
  by (simp add: usable_path_def sample_world_def sample_exists)

text \<open>
  C9. When the image path is given, not empty and names an existing file, the image is
  selected whatever the video input is, and the response is the one the same request
  without a video gets. In a run that reaches the report the media type is \<^verbatim>\<open>image\<close> or
  \<^verbatim>\<open>video\<close>; it is \<^verbatim>\<open>video\<close> only if the image input is \<^verbatim>\<open>None\<close>, empty (false in
  Python, like \<^verbatim>\<open>None\<close>) or names no existing file, and then the file is the video.
\<close>

theorem image_takes_priority:
  "(\<forall>p. image_file = Some p \<and> p \<noteq> [] \<and> fs_exists (files w) p \<longrightarrow>
        select_media (files w) image_file video_file = Some (p, ''image'')
      \<and> detect_deepfakes rt w image_file video_file models_to_use confidence_threshold
          num_frames =
        detect_deepfakes rt w image_file None models_to_use confidence_threshold num_frames)
   \<and> (\<forall>job. detect_deepfakes_run rt w image_file video_file models_to_use
              confidence_threshold num_frames = Completed job \<longrightarrow>
        (job_media_type job = ''image'' \<and> image_file = Some (job_media_file job)
           \<and> job_media_file job \<noteq> [] \<and> fs_exists (files w) (job_media_file job))
      \<or> (job_media_type job = ''video'' \<and> video_file = Some (job_media_file job)
           \<and> (image_file = None \<or> image_file = Some []
                \<or> (\<exists>p. image_file = Some p \<and> \<not> fs_exists (files w) p))))"
proof (intro conjI allI impI)
  fix p
  assume image: "image_file = Some p \<and> p \<noteq> [] \<and> fs_exists (files w) p"
  then have sel: "select_media (files w) image_file v = Some (p, ''image'')" for v
    by (simp add: select_media_def usable_path_def)
  then show "select_media (files w) image_file video_file = Some (p, ''image'')" .
  from sel have "detect_deepfakes_run rt w image_file video_file models_to_use
      confidence_threshold num_frames =
    detect_deepfakes_run rt w image_file None models_to_use confidence_threshold num_frames"
    by (simp add: detect_deepfakes_run_def)
  then show "detect_deepfakes rt w image_file video_file models_to_use confidence_threshold
      num_frames =
    detect_deepfakes rt w image_file None models_to_use confidence_threshold num_frames"
    by (simp add: detect_deepfakes_def)
next
  fix job
  assume "detect_deepfakes_run rt w image_file video_file models_to_use confidence_threshold
      num_frames = Completed job"
  then obtain media_file media_type where
    sel: "select_media (files w) image_file video_file = Some (media_file, media_type)"
    and job: "job_media_file job = media_file" "job_media_type job = media_type"
    by (elim detect_deepfakes_run_CompletedE) simp
  show "(job_media_type job = ''image'' \<and> image_file = Some (job_media_file job)
           \<and> job_media_file job \<noteq> [] \<and> fs_exists (files w) (job_media_file job))
      \<or> (job_media_type job = ''video'' \<and> video_file = Some (job_media_file job)
           \<and> (image_file = None \<or> image_file = Some []
                \<or> (\<exists>p. image_file = Some p \<and> \<not> fs_exists (files w) p)))"
  proof (cases "usable_path (files w) image_file")
    case (Some p)
    with sel job show ?thesis
      by (simp add: select_media_def usable_path_Some)
  next
    case None
    with sel job have "job_media_type job = ''video'' \<and> video_file = Some (job_media_file job)"
      by (auto simp: select_media_def usable_path_Some split: option.splits)
    with None show ?thesis
      by (simp add: usable_path_None)
  qed
qed

theorem image_takes_priority_witness:
  "fs_exists (files studio_world) ''face.jpg''
   \<and> select_media (files studio_world) (Some ''face.jpg'') (Some ''drive.mp4'') =
       Some (''face.jpg'', ''image'')
   \<and> detect_deepfakes decimal_runtime studio_world (Some ''face.jpg'') (Some ''drive.mp4'')
       [''efficientnet''] 0.8 11 =
     detect_deepfakes decimal_runtime studio_world (Some ''face.jpg'') None
       [''efficientnet''] 0.8 11
   \<and> detect_deepfakes_run decimal_runtime studio_world (Some ''missing.jpg'')
       (Some ''drive.mp4'') [''efficientnet''] 0.5 11 =
     Completed
       \<lparr>job_media_file = ''drive.mp4'', job_media_type = ''video'',
        job_model_configs = [(''efficientnet'', 1)], job_annotated_media_path = None,
        job_overall_is_deepfake = False, job_overall_status = ''AUTHENTIC'',
        job_overall_icon = check_mark, job_avg_confidence = 0.5\<rparr>
   \<and> \<not> fs_exists (files studio_world) ''missing.jpg''"
  using image_takes_priority [where w = studio_world and image_file = "Some ''face.jpg''"
          and video_file = "Some ''drive.mp4''" and rt = decimal_runtime
          and models_to_use = "[''efficientnet'']" and confidence_threshold = "0.8"
          and num_frames = 11]
        image_takes_priority [where w = studio_world and image_file = "Some ''missing.jpg''"
          and video_file = "Some ''drive.mp4''" and rt = decimal_runtime
          and models_to_use = "[''efficientnet'']" and confidence_threshold = "0.5"
          and num_frames = 11]
        studio_video_run
  by (simp add: studio_world_def studio_exists)

subsection \<open>The annotated media path\<close>

lemma usable_path_glob_update:
  "usable_path (fs\<lparr>fs_glob := g\<rparr>) path = usable_path fs path"
  by (cases path) (simp_all add: usable_path_def)

lemma select_media_glob_update:
  "select_media (fs\<lparr>fs_glob := g\<rparr>) image_file video_file =
     select_media fs image_file video_file"
  by (simp add: select_media_def usable_path_glob_update cong: option.case_cong)

text \<open>
  C10. Every response of \<^verbatim>\<open>detect_deepfakes\<close> has \<^verbatim>\<open>None\<close> as its first component (the
  handler returns a response unless an exception outside \<^verbatim>\<open>Exception\<close> passes through
  it); a job that reaches the report has \<^verbatim>\<open>annotated_media_path\<close> \<^verbatim>\<open>None\<close> and is answered
  with \<^verbatim>\<open>None\<close> and its report; and the outcome does not depend on what \<^verbatim>\<open>glob\<close> would
  find: the handler searches for no artifact.
\<close>

theorem annotated_media_absent:
  "(case detect_deepfakes rt w image_file video_file models_to_use confidence_threshold
          num_frames of
      Inr response \<Rightarrow> fst response = None
    | Inl e \<Rightarrow> \<not> is_Exception e)
   \<and> (\<forall>job. detect_deepfakes_run rt w image_file video_file models_to_use
              confidence_threshold num_frames = Completed job \<longrightarrow>
          job_annotated_media_path job = None
        \<and> detect_deepfakes rt w image_file video_file models_to_use confidence_threshold
            num_frames =
          Inr (None, results_text rt models_to_use confidence_threshold num_frames job))
   \<and> detect_deepfakes rt (w\<lparr>files := (files w)\<lparr>fs_glob := g\<rparr>\<rparr>) image_file video_file
       models_to_use confidence_threshold num_frames =
     detect_deepfakes rt w image_file video_file models_to_use confidence_threshold num_frames"
proof -
  have none: "job_annotated_media_path job = None"
    if "detect_deepfakes_run rt w image_file video_file models_to_use confidence_threshold
          num_frames = Completed job" for job
    using that by (elim detect_deepfakes_run_CompletedE) simp
  then have "case detect_deepfakes rt w image_file video_file models_to_use
      confidence_threshold num_frames of
      Inr response \<Rightarrow> fst response = None
    | Inl e \<Rightarrow> \<not> is_Exception e"
    by (simp add: detect_deepfakes_def split: deepfake_run.splits)
  moreover have "detect_deepfakes rt w image_file video_file models_to_use
      confidence_threshold num_frames =
    Inr (None, results_text rt models_to_use confidence_threshold num_frames job)"
    if "detect_deepfakes_run rt w image_file video_file models_to_use confidence_threshold
          num_frames = Completed job" for job
    using that none [OF that] by (simp add: detect_deepfakes_def)
  moreover have "detect_deepfakes_run rt (w\<lparr>files := (files w)\<lparr>fs_glob := g\<rparr>\<rparr>) image_file
      video_file models_to_use confidence_threshold num_frames =
    detect_deepfakes_run rt w image_file video_file models_to_use confidence_threshold
      num_frames"
    by (simp add: detect_deepfakes_run_def select_media_glob_update
          cong: option.case_cong sum.case_cong prod.case_cong if_cong)
  ultimately show ?thesis using none by (simp add: detect_deepfakes_def)
qed

theorem annotated_media_absent_witness:
  "detect_deepfakes_run decimal_runtime sample_world (Some ''face.jpg'') None
     [''efficientnet''] 0.8 11 =
     Completed
       \<lparr>job_media_file = ''face.jpg'', job_media_type = ''image'',
        job_model_configs = [(''efficientnet'', 1)], job_annotated_media_path = None,
        job_overall_is_deepfake = True, job_overall_status = ''DEEPFAKE'',
        job_overall_icon = rotating_light, job_avg_confidence = 0.8\<rparr>
   \<and> detect_deepfakes decimal_runtime sample_world (Some ''face.jpg'') None
       [''efficientnet''] 0.8 11 =
     Inr (None,
          results_text decimal_runtime [''efficientnet''] 0.8 11
            \<lparr>job_media_file = ''face.jpg'', job_media_type = ''image'',
             job_model_configs = [(''efficientnet'', 1)], job_annotated_media_path = None,
             job_overall_is_deepfake = True, job_overall_status = ''DEEPFAKE'',
             job_overall_icon = rotating_light, job_avg_confidence = 0.8\<rparr>)"
  using annotated_media_absent [where w = sample_world and image_file = "Some ''face.jpg''"
          and video_file = None and rt = decimal_runtime
          and models_to_use = "[''efficientnet'']" and confidence_threshold = "0.8"
          and num_frames = 11] sample_run
  by simp

subsection \<open>The report as a function of the job\<close>

text \<open>
  C8. Two runs, in any two worlds and on any two pairs of media inputs, that reach the
  report with the same media file and type and the same verdict, for the same model
  selection, threshold and frame count, return the same response, and so the same
  report text.
\<close>

theorem report_deterministic:
  assumes "detect_deepfakes_run rt w1 image1 video1 models_to_use confidence_threshold
             num_frames = Completed job1"
      and "detect_deepfakes_run rt w2 image2 video2 models_to_use confidence_threshold
             num_frames = Completed job2"
      and "job_media_file job1 = job_media_file job2"
      and "job_media_type job1 = job_media_type job2"
      and "job_overall_is_deepfake job1 = job_overall_is_deepfake job2"
  shows "detect_deepfakes rt w1 image1 video1 models_to_use confidence_threshold num_frames =
         detect_deepfakes rt w2 image2 video2 models_to_use confidence_threshold num_frames
       \<and> detect_deepfakes rt w1 image1 video1 models_to_use confidence_threshold num_frames =
         Inr (None, results_text rt models_to_use confidence_threshold num_frames job1)
       \<and> results_text rt models_to_use confidence_threshold num_frames job1 =
         results_text rt models_to_use confidence_threshold num_frames job2"
proof -
  have "job1 = job2"
    using assms
    by (elim detect_deepfakes_run_CompletedE) simp
  moreover have "job_annotated_media_path job1 = None"
    using assms(1) by (elim detect_deepfakes_run_CompletedE) simp
  ultimately show ?thesis using assms(1,2) by (simp add: detect_deepfakes_def)
qed

theorem report_deterministic_witness:
  "detect_deepfakes_run decimal_runtime sample_world (Some ''face.jpg'') None
     [''efficientnet''] 0.8 11 =
     Completed
       \<lparr>job_media_file = ''face.jpg'', job_media_type = ''image'',
        job_model_configs = [(''efficientnet'', 1)], job_annotated_media_path = None,
        job_overall_is_deepfake = True, job_overall_status = ''DEEPFAKE'',
        job_overall_icon = rotating_light, job_avg_confidence = 0.8\<rparr>
   \<and> detect_deepfakes_run decimal_runtime studio_world (Some ''face.jpg'') (Some ''drive.mp4'')
       [''efficientnet''] 0.8 11 =
     Completed
       \<lparr>job_media_file = ''face.jpg'', job_media_type = ''image'',
        job_model_configs = [(''efficientnet'', 1)], job_annotated_media_path = None,
        job_overall_is_deepfake = True, job_overall_status = ''DEEPFAKE'',
        job_overall_icon = rotating_light, job_avg_confidence = 0.8\<rparr>
   \<and> detect_deepfakes decimal_runtime sample_world (Some ''face.jpg'') None
       [''efficientnet''] 0.8 11 =
     detect_deepfakes decimal_runtime studio_world (Some ''face.jpg'') (Some ''drive.mp4'')
       [''efficientnet''] 0.8 11"
  using report_deterministic [OF sample_run studio_run] sample_run studio_run
  by simp

subsection \<open>The risk tier\<close>

text \<open>
  \<^verbatim>\<open>get_risk_level\<close> itself has the cut-offs \<open>0.8\<close> and \<open>0.6\<close>, with one set of labels for
  each verdict.
\<close>

lemma get_risk_level_tiers:
  "get_risk_level confidence is_deepfake =
     (if confidence \<ge> 0.8
      then (if is_deepfake then red_circle @ '' **HIGH RISK**''
            else green_circle @ '' **VERY CONFIDENT**'')
      else if 0.6 \<le> confidence \<and> confidence < 0.8
      then (if is_deepfake then yellow_circle @ '' **MEDIUM RISK**''
            else yellow_circle @ '' **CONFIDENT**'')
      else (if is_deepfake then orange_circle @ '' **LOW RISK**''
            else orange_circle @ '' **UNCERTAIN**''))"
  by (simp add: get_risk_level_def)

lemma sample_pct: "fmt_pct1 decimal_runtime (4 / 5) = ''80.0%''"
  by (simp add: decimal_runtime_def decimal_fixed_def round_half_even_def str_nat.simps)

lemma sample_repr: "fmt_repr decimal_runtime 1 = ''1.0''"
  by (simp add: decimal_runtime_def decimal_repr_def str_nat.simps eval_nat_numeral)

lemma sample_mul: "float_mul decimal_runtime (4 / 5) 20 = 16"
  by (simp add: decimal_runtime_def)

lemma sample_bar:
  "get_confidence_bar decimal_runtime (4 / 5) 20 =
     ''['' @ concat (replicate 16 full_block) @ concat (replicate 4 light_shade) @ ''] 80.0%''"
  by (simp add: get_confidence_bar_def py_int_def str_mul_def sample_pct sample_mul)

lemma title_image: "title ''image'' = ''Image''"
  by (simp add: title_def is_upper_def is_lower_def to_upper_def to_lower_def)

lemma str_nat_1: "str_nat (Suc 0) = ''1''"
  by (simp add: str_nat.simps)

lemma sample_response:
  "detect_deepfakes decimal_runtime sample_world (Some ''face.jpg'') None [''efficientnet'']
     (4 / 5) 11 =
   Inr (None,
        results_text decimal_runtime [''efficientnet''] (4 / 5) 11
          \<lparr>job_media_file = ''face.jpg'', job_media_type = ''image'',
           job_model_configs = [(''efficientnet'', 1)], job_annotated_media_path = None,
           job_overall_is_deepfake = True, job_overall_status = ''DEEPFAKE'',
           job_overall_icon = rotating_light, job_avg_confidence = 4 / 5\<rparr>)"
  by (simp add: detect_deepfakes_def sample_run)

text \<open>
  C7, on the code. \<^verbatim>\<open>get_risk_level\<close> is defined and never called: the report of a job
  with threshold \<open>0.8\<close> and a deepfake verdict, for which it would return the highest
  tier, shows neither that label nor any other risk label.
\<close>

theorem risk_tier_not_in_report:
  "detect_deepfakes_run decimal_runtime sample_world (Some ''face.jpg'') None
     [''efficientnet''] 0.8 11 =
     Completed
       \<lparr>job_media_file = ''face.jpg'', job_media_type = ''image'',
        job_model_configs = [(''efficientnet'', 1)], job_annotated_media_path = None,
        job_overall_is_deepfake = True, job_overall_status = ''DEEPFAKE'',
        job_overall_icon = rotating_light, job_avg_confidence = 0.8\<rparr>
   \<and> detect_deepfakes decimal_runtime sample_world (Some ''face.jpg'') None [''efficientnet'']
     0.8 11 =
   Inr (None,
        results_text decimal_runtime [''efficientnet''] 0.8 11
          \<lparr>job_media_file = ''face.jpg'', job_media_type = ''image'',
           job_model_configs = [(''efficientnet'', 1)], job_annotated_media_path = None,
           job_overall_is_deepfake = True, job_overall_status = ''DEEPFAKE'',
           job_overall_icon = rotating_light, job_avg_confidence = 0.8\<rparr>)
   \<and> get_risk_level 0.8 True = red_circle @ '' **HIGH RISK**''
   \<and> \<not> contains
         (results_text decimal_runtime [''efficientnet''] 0.8 11
            \<lparr>job_media_file = ''face.jpg'', job_media_type = ''image'',
             job_model_configs = [(''efficientnet'', 1)], job_annotated_media_path = None,
             job_overall_is_deepfake = True, job_overall_status = ''DEEPFAKE'',
             job_overall_icon = rotating_light, job_avg_confidence = 0.8\<rparr>)
         ''HIGH RISK''
   \<and> \<not> contains
         (results_text decimal_runtime [''efficientnet''] 0.8 11
            \<lparr>job_media_file = ''face.jpg'', job_media_type = ''image'',
             job_model_configs = [(''efficientnet'', 1)], job_annotated_media_path = None,
             job_overall_is_deepfake = True, job_overall_status = ''DEEPFAKE'',
             job_overall_icon = rotating_light, job_avg_confidence = 0.8\<rparr>)
         ''RISK''"
proof -
  have "\<not> contains
         (results_text decimal_runtime [''efficientnet''] 0.8 11
            \<lparr>job_media_file = ''face.jpg'', job_media_type = ''image'',
             job_model_configs = [(''efficientnet'', 1)], job_annotated_media_path = None,
             job_overall_is_deepfake = True, job_overall_status = ''DEEPFAKE'',
             job_overall_icon = rotating_light, job_avg_confidence = 0.8\<rparr>)
         ''RISK''"
    by (simp add: results_text_def title_image basename_def
          sample_bar sample_pct eval_nat_numeral repr_dict_def repr_str_def sample_repr str_nat_1
          clapper_board_def bar_chart_def direct_hit_def rotating_light_def full_block_def
          light_shade_def magnifying_glass_def light_bulb_def warning_sign_def
          variation_selector_def information_source_def)
  moreover have "\<not> contains
         (results_text decimal_runtime [''efficientnet''] 0.8 11
            \<lparr>job_media_file = ''face.jpg'', job_media_type = ''image'',
             job_model_configs = [(''efficientnet'', 1)], job_annotated_media_path = None,
             job_overall_is_deepfake = True, job_overall_status = ''DEEPFAKE'',
             job_overall_icon = rotating_light, job_avg_confidence = 0.8\<rparr>)
         ''HIGH RISK''"
    by (simp add: results_text_def title_image basename_def
          sample_bar sample_pct eval_nat_numeral repr_dict_def repr_str_def sample_repr str_nat_1
          clapper_board_def bar_chart_def direct_hit_def rotating_light_def full_block_def
          light_shade_def magnifying_glass_def light_bulb_def warning_sign_def
          variation_selector_def information_source_def)
  moreover have "get_risk_level 0.8 True = red_circle @ '' **HIGH RISK**''"
    by (simp add: get_risk_level_def)
  moreover have "detect_deepfakes decimal_runtime sample_world (Some ''face.jpg'') None
      [''efficientnet''] 0.8 11 =
     Inr (None,
        results_text decimal_runtime [''efficientnet''] 0.8 11
          \<lparr>job_media_file = ''face.jpg'', job_media_type = ''image'',
           job_model_configs = [(''efficientnet'', 1)], job_annotated_media_path = None,
           job_overall_is_deepfake = True, job_overall_status = ''DEEPFAKE'',
           job_overall_icon = rotating_light, job_avg_confidence = 0.8\<rparr>)"
    using sample_response by simp
  moreover have "detect_deepfakes_run decimal_runtime sample_world (Some ''face.jpg'') None
      [''efficientnet''] 0.8 11 =
     Completed
       \<lparr>job_media_file = ''face.jpg'', job_media_type = ''image'',
        job_model_configs = [(''efficientnet'', 1)], job_annotated_media_path = None,
        job_overall_is_deepfake = True, job_overall_status = ''DEEPFAKE'',
        job_overall_icon = rotating_light, job_avg_confidence = 0.8\<rparr>"
    using sample_run by simp
  ultimately show ?thesis by blast
qed

subsection \<open>Locating artifacts\<close>

lemma first_glob_find:
  "first_glob fs dir patterns =
     (case find (\<lambda>candidate. fs_glob fs candidate \<noteq> []) (map (path_join dir) patterns) of
        None \<Rightarrow> None
      | Some candidate \<Rightarrow> Some (hd (fs_glob fs candidate)))"
  by (induction patterns) (auto split: list.splits)

lemma first_existing_find:
  "first_existing fs output_folder names =
     find (fs_exists fs) (map (path_join output_folder) names)"
  by (induction names) (auto simp: Let_def)

lemma find_append:
  "find P (xs @ ys) = (case find P xs of None \<Rightarrow> find P ys | Some x \<Rightarrow> Some x)"
  by (induction xs) auto

lemma first_glob_truthy:
  assumes "\<forall>pattern. [] \<notin> set (fs_glob fs pattern)"
  shows "truthy (first_glob fs dir patterns) \<longleftrightarrow> first_glob fs dir patterns \<noteq> None"
proof (induction patterns)
  case Nil
  show ?case by (simp add: truthy_def)
next
  case (Cons pattern patterns)
  show ?case
  proof (cases "fs_glob fs (path_join dir pattern)")
    case Nil
    with Cons show ?thesis by simp
  next
    case (Cons comparison_file rest)
    with assms have "comparison_file \<noteq> []"
      by (metis list.set_intros(1))
    with Cons show ?thesis by (simp add: truthy_def)
  qed
qed

lemma find_comparison_find:
  assumes "\<forall>pattern. [] \<notin> set (fs_glob fs pattern)"
  shows "find_comparison fs search_dir result_path patterns =
           (case find (\<lambda>candidate. fs_glob fs candidate \<noteq> [])
                   (map (path_join search_dir) patterns @
                    map (path_join (dirname result_path)) patterns) of
              None \<Rightarrow> None
            | Some candidate \<Rightarrow> Some (hd (fs_glob fs candidate)))"
proof -
  have "find_comparison fs search_dir result_path patterns =
      (case first_glob fs search_dir patterns of
         None \<Rightarrow> first_glob fs (dirname result_path) patterns
       | Some comparison_file \<Rightarrow> Some comparison_file)"
    using first_glob_truthy [OF assms, of search_dir patterns]
    by (cases "first_glob fs search_dir patterns")
       (auto simp: find_comparison_def Let_def split: option.splits)
  then show ?thesis
    by (simp add: first_glob_find find_append split: option.splits)
qed

lemma path_join_nonempty: "a \<noteq> [] \<Longrightarrow> path_join a b \<noteq> []"
  by (auto simp: path_join_def)

lemma find_exists_usable:
  assumes "\<forall>c \<in> set candidates. c \<noteq> []"
  shows "usable_path fs (find (fs_exists fs) candidates) = find (fs_exists fs) candidates"
proof (cases "find (fs_exists fs) candidates")
  case None
  then show ?thesis by (simp add: usable_path_def)
next
  case (Some c)
  then have "fs_exists fs c" "c \<in> set candidates"
    by (auto simp: find_Some_iff)
  with assms Some show ?thesis by (simp add: usable_path_def)
qed

lemma listed_files_consistent:
  assumes "\<forall>(pattern, found) \<in> set listings. has_magic pattern \<and> [] \<notin> set found"
      and "[] \<notin> set existing"
  shows "glob_consistent (listed_files existing listings)"
  unfolding glob_consistent_def
proof (intro allI conjI impI)
  fix pattern
  show "[] \<notin> set (fs_glob (listed_files existing listings) pattern)"
  proof (cases "map_of listings pattern")
    case None
    with assms(2) show ?thesis by (auto simp: listed_files_def)
  next
    case (Some found)
    then have "(pattern, found) \<in> set listings" by (rule map_of_SomeD)
    with assms(1) have "[] \<notin> set found" by blast
    with Some show ?thesis by (simp add: listed_files_def)
  qed
next
  fix pattern
  assume "\<not> has_magic pattern \<and> fs_exists (listed_files existing listings) pattern"
  then have plain: "\<not> has_magic pattern" and present: "pattern \<in> set existing"
    by (simp_all add: listed_files_def)
  have "map_of listings pattern = None"
  proof (cases "map_of listings pattern")
    case (Some found)
    then have "(pattern, found) \<in> set listings" by (rule map_of_SomeD)
    with assms(1) plain show ?thesis by blast
  qed simp
  with present show "fs_glob (listed_files existing listings) pattern = [pattern]"
    by (simp add: listed_files_def)
qed

lemma reenacted_files_consistent: "glob_consistent reenacted_files"
  unfolding reenacted_files_def
  by (rule listed_files_consistent) (simp_all add: has_magic_def reenacted_dir_def)

lemma upper_files_consistent: "glob_consistent upper_files"
  unfolding upper_files_def
  by (rule listed_files_consistent) (simp_all add: has_magic_def reenacted_dir_def upper_dir_def)

text \<open>
  C6, as the claim states it, fails in its fourth step. The comparison video lies one
  directory level above the search directory, where \<^verbatim>\<open>glob\<close> lists it for the wildcard
  patterns, and the result lies in the search directory itself: the second search is
  made in the directory of the result, finds nothing, and the comparison path is absent.
\<close>

theorem comparison_one_level_up_counterexample:
  "glob_consistent upper_files
   \<and> dirname reenacted_dir = upper_dir
   \<and> fs_exists upper_files (upper_dir @ ''/comparison_face_by_drive.mp4'')
   \<and> fs_glob upper_files (path_join (dirname reenacted_dir) ''comparison_*.mp4'') =
       [upper_dir @ ''/comparison_face_by_drive.mp4'']
   \<and> reenact_face upper_world (Some ''face.jpg'') (Some ''drive.mp4'') ''tps'' False =
       Inr (Some (reenacted_dir @ ''/result.mp4''), None)"
proof -
  have "reenact_face upper_world (Some ''face.jpg'') (Some ''drive.mp4'') ''tps'' False =
       Inr (Some (reenacted_dir @ ''/result.mp4''), None)"
    by (simp add: reenact_face_def reenact_face_body_def upper_world_def studio_world_def
          output_dir_def path_join_def splitext_def basename_def find_comparison_def
          comparison_patterns_def upper_files_def listed_files_def reenacted_dir_def
          upper_dir_def truthy_def dirname_def Let_def)
  moreover have "dirname reenacted_dir = upper_dir"
    by (simp add: dirname_def reenacted_dir_def upper_dir_def)
  moreover have "fs_exists upper_files (upper_dir @ ''/comparison_face_by_drive.mp4'')"
    by (simp add: upper_files_def listed_files_def)
  moreover have "fs_glob upper_files (path_join (dirname reenacted_dir) ''comparison_*.mp4'') =
       [upper_dir @ ''/comparison_face_by_drive.mp4'']"
    by (simp add: dirname_def reenacted_dir_def upper_dir_def upper_files_def listed_files_def
          path_join_def)
  ultimately show ?thesis using upper_files_consistent by blast
qed

text \<open>
  C6, amended. For a reenactment that succeeds on a file system where \<^verbatim>\<open>glob\<close> behaves as
  described above, the comparison path of the response is decided by the first
  candidate with a match in this order: the exact name
  \<^verbatim>\<open>comparison_{source}_by_{driving}.mp4\<close>, then \<^verbatim>\<open>comparison_{source}_by_*.mp4\<close>, then
  \<^verbatim>\<open>comparison_*.mp4\<close>, all three in the output directory of the reenactor, and then the
  same three, in the same order, in the directory of the returned result path
  (\<^verbatim>\<open>dirname(result_path)\<close>, which need not be one level above the first directory). The
  first file \<^verbatim>\<open>glob\<close> lists for that candidate is returned, \<^verbatim>\<open>None\<close> when no candidate has
  a match; and when the exact name has no special character and exists in the output
  directory, it is the one returned. For a detection that succeeds, the annotated image
  of the response is the first of the three names \<^verbatim>\<open>{name}_annotated{ext}\<close>,
  \<^verbatim>\<open>{name}_detected{ext}\<close>, \<^verbatim>\<open>{name}_detection{ext}\<close> that exists in the output folder,
  \<^verbatim>\<open>None\<close> when none does; no pattern is involved there.
\<close>

theorem artifact_locator_order:
  assumes "output_folder = path_join (path_join output_dir ''face_reenactment'') reenactor_model"
      and "source_name = fst (splitext (basename source))"
      and "driving_name = fst (splitext (basename driving))"
      and "output_path = path_join output_folder (source_name @ ''_reenacted'')"
      and "exact = ''comparison_'' @ source_name @ ''_by_'' @ driving_name @ ''.mp4''"
      and "any_driving = ''comparison_'' @ source_name @ ''_by_*.mp4''"
      and "any_comparison = ''comparison_*.mp4''"
      and "detection_folder = path_join (path_join output_dir ''face_detection'') detection_model"
      and "json_path = path_join detection_folder ''detections.json''"
      and "name = fst (splitext (basename image_path))"
      and "ext = snd (splitext (basename image_path))"
  shows "(FaceReenactor_create w reenactor_model = Inr reenactor
          \<and> os_makedirs w (files w) output_folder = Inr fs
          \<and> reenactor fs source (Some driving) output_path resize = Inr (result_path, fs')
          \<and> glob_consistent fs' \<longrightarrow>
            reenact_face w (Some source) (Some driving) reenactor_model resize =
              Inr (Some result_path,
                   case find (\<lambda>candidate. fs_glob fs' candidate \<noteq> [])
                          [path_join output_path exact,
                           path_join output_path any_driving,
                           path_join output_path any_comparison,
                           path_join (dirname result_path) exact,
                           path_join (dirname result_path) any_driving,
                           path_join (dirname result_path) any_comparison] of
                     None \<Rightarrow> None
                   | Some candidate \<Rightarrow> Some (hd (fs_glob fs' candidate)))
          \<and> (\<not> has_magic (path_join output_path exact)
               \<and> fs_exists fs' (path_join output_path exact) \<longrightarrow>
                reenact_face w (Some source) (Some driving) reenactor_model resize =
                  Inr (Some result_path, Some (path_join output_path exact))))
       \<and> (image_path \<noteq> [] \<and> fs_exists (files w) image_path
          \<and> FaceDetector_create w detection_model = Inr detector
          \<and> detector (files w) image_path json_path detection_folder = Inr (detections, fs'') \<longrightarrow>
            detect_faces rt w (Some image_path) detection_model =
              Inr (find (fs_exists fs'')
                     [path_join detection_folder (name @ ''_annotated'' @ ext),
                      path_join detection_folder (name @ ''_detected'' @ ext),
                      path_join detection_folder (name @ ''_detection'' @ ext)],
                   (if fs_exists fs'' json_path then Some json_path else None),
                   faces_text rt detections))"
proof (rule conjI; rule impI)
  assume run: "FaceReenactor_create w reenactor_model = Inr reenactor
      \<and> os_makedirs w (files w) output_folder = Inr fs
      \<and> reenactor fs source (Some driving) output_path resize = Inr (result_path, fs')
      \<and> glob_consistent fs'"
  then have no_empty: "\<forall>pattern. [] \<notin> set (fs_glob fs' pattern)"
    by (simp add: glob_consistent_def)
  have body: "reenact_face_body w (Some source) (Some driving) reenactor_model resize =
      Inr (Some result_path,
           find_comparison fs' output_path result_path
             (comparison_patterns source_name driving_name))"
    using run assms(1-4) by (simp add: reenact_face_body_def Let_def)
  have response: "reenact_face w (Some source) (Some driving) reenactor_model resize =
      Inr (Some result_path,
           case find (\<lambda>candidate. fs_glob fs' candidate \<noteq> [])
                  [path_join output_path exact,
                   path_join output_path any_driving,
                   path_join output_path any_comparison,
                   path_join (dirname result_path) exact,
                   path_join (dirname result_path) any_driving,
                   path_join (dirname result_path) any_comparison] of
             None \<Rightarrow> None
           | Some candidate \<Rightarrow> Some (hd (fs_glob fs' candidate)))"
    using body assms(5-7)
    by (simp add: reenact_face_def find_comparison_find [OF no_empty] comparison_patterns_def)
  have "reenact_face w (Some source) (Some driving) reenactor_model resize =
      Inr (Some result_path, Some (path_join output_path exact))"
    if exact: "\<not> has_magic (path_join output_path exact)
      \<and> fs_exists fs' (path_join output_path exact)"
  proof -
    from run exact have "fs_glob fs' (path_join output_path exact) =
        [path_join output_path exact]"
      by (simp add: glob_consistent_def)
    with response show ?thesis by simp
  qed
  with response show "reenact_face w (Some source) (Some driving) reenactor_model resize =
      Inr (Some result_path,
           case find (\<lambda>candidate. fs_glob fs' candidate \<noteq> [])
                  [path_join output_path exact,
                   path_join output_path any_driving,
                   path_join output_path any_comparison,
                   path_join (dirname result_path) exact,
                   path_join (dirname result_path) any_driving,
                   path_join (dirname result_path) any_comparison] of
             None \<Rightarrow> None
           | Some candidate \<Rightarrow> Some (hd (fs_glob fs' candidate)))
    \<and> (\<not> has_magic (path_join output_path exact)
         \<and> fs_exists fs' (path_join output_path exact) \<longrightarrow>
          reenact_face w (Some source) (Some driving) reenactor_model resize =
            Inr (Some result_path, Some (path_join output_path exact)))"
    by blast
next
  assume run: "image_path \<noteq> [] \<and> fs_exists (files w) image_path
      \<and> FaceDetector_create w detection_model = Inr detector
      \<and> detector (files w) image_path json_path detection_folder = Inr (detections, fs'')"
  have "path_join output_dir ''face_detection'' \<noteq> []"
    by (simp add: path_join_def output_dir_def)
  then have "detection_folder \<noteq> []"
    unfolding assms(8) by (rule path_join_nonempty)
  then have "\<forall>c \<in> set (map (path_join detection_folder) (possible_names image_path)). c \<noteq> []"
    by (simp add: path_join_nonempty)
  from find_exists_usable [OF this, of fs'']
  have "usable_path fs'' (find_annotated_image fs'' detection_folder image_path) =
      find (fs_exists fs'') (map (path_join detection_folder) (possible_names image_path))"
    by (simp add: find_annotated_image_def first_existing_find)
  with run assms(8-11)
  show "detect_faces rt w (Some image_path) detection_model =
      Inr (find (fs_exists fs'')
             [path_join detection_folder (name @ ''_annotated'' @ ext),
              path_join detection_folder (name @ ''_detected'' @ ext),
              path_join detection_folder (name @ ''_detection'' @ ext)],
           (if fs_exists fs'' json_path then Some json_path else None),
           faces_text rt detections)"
    by (simp add: detect_faces_def detect_faces_body_def Let_def possible_names_def)
qed

lemma studio_names:
  "fst (splitext (basename ''face.jpg'')) = ''face''"
  "snd (splitext (basename ''face.jpg'')) = ''.jpg''"
  "fst (splitext (basename ''drive.mp4'')) = ''drive''"
  by (simp_all add: splitext_def basename_def)

lemma studio_paths:
  "path_join (path_join (path_join output_dir ''face_reenactment'') ''tps'')
     (''face'' @ ''_reenacted'') = reenacted_dir"
  "path_join (path_join output_dir ''face_detection'') ''ultralight'' = detected_dir"
  by (simp_all add: path_join_def output_dir_def reenacted_dir_def detected_dir_def)

theorem artifact_locator_order_witness:
  "glob_consistent reenacted_files
   \<and> fs_glob reenacted_files (reenacted_dir @ ''/comparison_*.mp4'') =
       [reenacted_dir @ ''/comparison_face_by_dance.mp4'',
        reenacted_dir @ ''/comparison_face_by_drive.mp4'']
   \<and> reenact_face studio_world (Some ''face.jpg'') (Some ''drive.mp4'') ''tps'' False =
       Inr (Some (reenacted_dir @ ''/result.mp4''),
            Some (reenacted_dir @ ''/comparison_face_by_drive.mp4''))
   \<and> \<not> fs_exists detected_files (detected_dir @ ''/face_annotated.jpg'')
   \<and> fs_exists detected_files (detected_dir @ ''/face_detection.jpg'')
   \<and> detect_faces decimal_runtime studio_world (Some ''face.jpg'') ''ultralight'' =
       Inr (Some (detected_dir @ ''/face_detected.jpg''),
            Some (detected_dir @ ''/detections.json''),
            faces_text decimal_runtime one_face)"
proof -
  have exact: "\<not> has_magic (path_join reenacted_dir (''comparison_'' @ ''face'' @ ''_by_'' @
        ''drive'' @ ''.mp4''))
      \<and> fs_exists reenacted_files (path_join reenacted_dir (''comparison_'' @ ''face'' @
        ''_by_'' @ ''drive'' @ ''.mp4''))"
    by (simp add: has_magic_def path_join_def reenacted_dir_def reenacted_files_def
          listed_files_def)
  have reenact: "FaceReenactor_create studio_world ''tps'' =
        Inr (\<lambda>fs source driving out resize. Inr (path_join out ''result.mp4'', reenacted_files))
      \<and> os_makedirs studio_world (files studio_world)
          (path_join (path_join output_dir ''face_reenactment'') ''tps'') = Inr studio_files
      \<and> (\<lambda>fs source driving out resize. Inr (path_join out ''result.mp4'', reenacted_files))
          studio_files ''face.jpg'' (Some ''drive.mp4'') reenacted_dir False =
          (Inr (reenacted_dir @ ''/result.mp4'', reenacted_files)
             :: exn + string \<times> filesystem)
      \<and> glob_consistent reenacted_files"
    by (simp add: studio_world_def reenacted_files_consistent path_join_def reenacted_dir_def)
  have detect: "''face.jpg'' \<noteq> [] \<and> fs_exists (files studio_world) ''face.jpg''
      \<and> FaceDetector_create studio_world ''ultralight'' =
          Inr (\<lambda>fs image json out. Inr (one_face, detected_files))
      \<and> (\<lambda>fs image json out. Inr (one_face, detected_files)) (files studio_world) ''face.jpg''
          (path_join detected_dir ''detections.json'') detected_dir =
          (Inr (one_face, detected_files) :: exn + detection list \<times> filesystem)"
    by (simp add: studio_world_def studio_exists)
  note order = artifact_locator_order [OF refl refl refl refl refl refl refl refl refl refl refl,
      where source = "''face.jpg''" and driving = "''drive.mp4''" and reenactor_model = "''tps''"
        and image_path = "''face.jpg''" and detection_model = "''ultralight''"
        and w = studio_world and rt = decimal_runtime, unfolded studio_names studio_paths]
  from order reenact exact
  have "reenact_face studio_world (Some ''face.jpg'') (Some ''drive.mp4'') ''tps'' False =
       Inr (Some (reenacted_dir @ ''/result.mp4''),
            Some (path_join reenacted_dir (''comparison_'' @ ''face'' @ ''_by_'' @ ''drive'' @
              ''.mp4'')))"
    by blast
  then have "reenact_face studio_world (Some ''face.jpg'') (Some ''drive.mp4'') ''tps'' False =
       Inr (Some (reenacted_dir @ ''/result.mp4''),
            Some (reenacted_dir @ ''/comparison_face_by_drive.mp4''))"
    by (simp add: path_join_def reenacted_dir_def)
  moreover from order detect
  have "detect_faces decimal_runtime studio_world (Some ''face.jpg'') ''ultralight'' =
      Inr (find (fs_exists detected_files)
             [path_join detected_dir (''face'' @ ''_annotated'' @ ''.jpg''),
              path_join detected_dir (''face'' @ ''_detected'' @ ''.jpg''),
              path_join detected_dir (''face'' @ ''_detection'' @ ''.jpg'')],
           (if fs_exists detected_files (path_join detected_dir ''detections.json'')
            then Some (path_join detected_dir ''detections.json'') else None),
           faces_text decimal_runtime one_face)"
    by blast
  then have "detect_faces decimal_runtime studio_world (Some ''face.jpg'') ''ultralight'' =
       Inr (Some (detected_dir @ ''/face_detected.jpg''),
            Some (detected_dir @ ''/detections.json''),
            faces_text decimal_runtime one_face)"
    by (simp add: path_join_def detected_dir_def detected_files_def listed_files_def)
  moreover have "fs_glob reenacted_files (reenacted_dir @ ''/comparison_*.mp4'') =
       [reenacted_dir @ ''/comparison_face_by_dance.mp4'',
        reenacted_dir @ ''/comparison_face_by_drive.mp4'']"
    by (simp add: reenacted_files_def listed_files_def reenacted_dir_def)
  moreover have "\<not> fs_exists detected_files (detected_dir @ ''/face_annotated.jpg'')
      \<and> fs_exists detected_files (detected_dir @ ''/face_detection.jpg'')"
    by (simp add: detected_files_def listed_files_def detected_dir_def)
  ultimately show ?thesis using reenacted_files_consistent by blast
qed

subsection \<open>Errors at the boundary\<close>

lemma detect_faces_no_image:
  "image_path = None \<or> image_path = Some [] \<Longrightarrow>
     detect_faces rt w image_path detection_model =
       Inr (None, None, ''Error: No image provided'')"
  by (auto simp: detect_faces_def detect_faces_body_def)

lemma detect_faces_not_found:
  "p \<noteq> [] \<Longrightarrow> \<not> fs_exists (files w) p \<Longrightarrow>
     detect_faces rt w (Some p) detection_model =
       Inr (None, None, ''Error: Image file not found: '' @ p)"
  by (simp add: detect_faces_def detect_faces_body_def)

lemma detect_faces_unknown_model:
  "p \<noteq> [] \<Longrightarrow> fs_exists (files w) p \<Longrightarrow> FaceDetector_create w detection_model = Inl e \<Longrightarrow>
   is_Exception e \<Longrightarrow>
     detect_faces rt w (Some p) detection_model =
       Inr (None, None,
            ''Error creating detector '' @ [CHR 0x27] @ detection_model @ [CHR 0x27] @ '': '' @
            str_exn e)"
  by (simp add: detect_faces_def detect_faces_body_def)

lemma detect_faces_detector_raises:
  "p \<noteq> [] \<Longrightarrow> fs_exists (files w) p \<Longrightarrow>
   FaceDetector_create w detection_model = Inr detector \<Longrightarrow>
   detector (files w) p
     (path_join (path_join (path_join output_dir ''face_detection'') detection_model)
        ''detections.json'')
     (path_join (path_join output_dir ''face_detection'') detection_model) = Inl e \<Longrightarrow>
   is_Exception e \<Longrightarrow>
     detect_faces rt w (Some p) detection_model = Inr (None, None, ''Error: '' @ str_exn e)"
  by (simp add: detect_faces_def detect_faces_body_def Let_def)

lemma detect_deepfakes_pipeline_raises:
  assumes "select_media (files w) image_file video_file = Some (media_file, media_type)"
      and "normalize_weights (select_model_configs models_to_use) = Inr model_configs"
      and "select_model_configs models_to_use \<noteq> []"
      and "PipelineDeepfakeDetection w model_configs confidence_threshold = Inl e
           \<or> (\<exists>pipeline. PipelineDeepfakeDetection w model_configs confidence_threshold =
                 Inr pipeline
               \<and> pipeline media_file (path_join output_dir ''deepfake_detection'') num_frames =
                   Inl e)"
      and "is_Exception e"
  shows "detect_deepfakes rt w image_file video_file models_to_use confidence_threshold
           num_frames = Inr (None, cross_mark @ '' **Error**: '' @ str_exn e)"
  using assms
  by (auto simp: detect_deepfakes_def detect_deepfakes_run_def)

lemma reenact_face_raises:
  "reenact_face_body w source_image driving_video reenactor_model resize = Inl e \<Longrightarrow>
   is_Exception e \<Longrightarrow>
     reenact_face w source_image driving_video reenactor_model resize = Inr (None, None)"
  by (simp add: reenact_face_def)

lemma reenact_face_unknown_model:
  "FaceReenactor_create w reenactor_model = Inl e \<Longrightarrow> is_Exception e \<Longrightarrow>
     reenact_face w source_image driving_video reenactor_model resize = Inr (None, None)"
  by (simp add: reenact_face_def reenact_face_body_def)

lemma detect_faces_propagates:
  "detect_faces rt w image_path detection_model = Inl e \<longleftrightarrow>
     detect_faces_body rt w image_path detection_model = Inl e \<and> \<not> is_Exception e"
  by (auto simp: detect_faces_def split: sum.splits if_splits)

lemma detect_deepfakes_propagates:
  "detect_deepfakes rt w image_file video_file models_to_use confidence_threshold num_frames =
     Inl e \<longleftrightarrow>
   detect_deepfakes_run rt w image_file video_file models_to_use confidence_threshold
     num_frames = Raises e \<and> \<not> is_Exception e"
  by (auto simp: detect_deepfakes_def split: deepfake_run.splits if_splits)

lemma reenact_face_propagates:
  "reenact_face w source_image driving_video reenactor_model resize = Inl e \<longleftrightarrow>
     reenact_face_body w source_image driving_video reenactor_model resize = Inl e
     \<and> \<not> is_Exception e"
  by (auto simp: reenact_face_def split: sum.splits if_splits)

text \<open>
  C5, as the claim states it, fails twice. \<^verbatim>\<open>reenact_face\<close> has a response of two paths
  and no text, and answers an unknown model with both of them absent. And the handlers
  catch with \<^verbatim>\<open>except Exception\<close>: a \<^verbatim>\<open>KeyboardInterrupt\<close> raised while the detector runs
  is no instance of \<^verbatim>\<open>Exception\<close> and reaches the caller of \<^verbatim>\<open>detect_faces\<close>.
\<close>

theorem reenact_error_without_message_counterexample:
  "FaceReenactor_create sample_world ''tps'' = Inl (Raised ''Unknown model'')
   \<and> reenact_face sample_world (Some ''face.jpg'') (Some ''clip.mp4'') ''tps'' False =
       Inr (None, None)
   \<and> detect_faces decimal_runtime studio_world (Some ''face.jpg'') ''blazeface'' =
       Inl KeyboardInterrupt"
  by (simp add: reenact_face_def reenact_face_body_def sample_world_def detect_faces_def
        detect_faces_body_def studio_world_def studio_exists Let_def)

text \<open>
  C5, amended. An error that is raised as an instance of \<^verbatim>\<open>Exception\<close> never leaves a
  handler. \<^verbatim>\<open>detect_faces\<close> answers a missing image, a path that does not exist, a
  detector that cannot be created and a detector that raises with a text starting with
  \<^verbatim>\<open>Error\<close>; \<^verbatim>\<open>detect_deepfakes\<close> answers a pipeline that cannot be built or that raises
  with the cross mark, \<^verbatim>\<open>**Error**:\<close> and the text of the exception; \<^verbatim>\<open>reenact_face\<close>
  answers an unknown model, and any other instance of \<^verbatim>\<open>Exception\<close> raised in its body,
  with two absent paths and no text. What a handler lets through to its caller is
  exactly what its body raises outside \<^verbatim>\<open>Exception\<close> (\<^verbatim>\<open>SystemExit\<close>, \<^verbatim>\<open>KeyboardInterrupt\<close>,
  \<^verbatim>\<open>GeneratorExit\<close>).
\<close>

theorem errors_become_responses:
  "(image_path = None \<or> image_path = Some [] \<longrightarrow>
      detect_faces rt w image_path detection_model =
        Inr (None, None, ''Error: No image provided''))
   \<and> (p \<noteq> [] \<and> \<not> fs_exists (files w) p \<longrightarrow>
      detect_faces rt w (Some p) detection_model =
        Inr (None, None, ''Error: Image file not found: '' @ p))
   \<and> (p \<noteq> [] \<and> fs_exists (files w) p \<and> FaceDetector_create w detection_model = Inl e
        \<and> is_Exception e \<longrightarrow>
      detect_faces rt w (Some p) detection_model =
        Inr (None, None,
             ''Error creating detector '' @ [CHR 0x27] @ detection_model @ [CHR 0x27] @
             '': '' @ str_exn e))
   \<and> (p \<noteq> [] \<and> fs_exists (files w) p \<and> FaceDetector_create w detection_model = Inr detector
        \<and> detector (files w) p
            (path_join (path_join (path_join output_dir ''face_detection'') detection_model)
               ''detections.json'')
            (path_join (path_join output_dir ''face_detection'') detection_model) = Inl e
        \<and> is_Exception e \<longrightarrow>
      detect_faces rt w (Some p) detection_model = Inr (None, None, ''Error: '' @ str_exn e))
   \<and> (select_media (files w) image_file video_file = Some (media_file, media_type)
        \<and> normalize_weights (select_model_configs models_to_use) = Inr model_configs
        \<and> select_model_configs models_to_use \<noteq> []
        \<and> (PipelineDeepfakeDetection w model_configs confidence_threshold = Inl e
             \<or> (\<exists>pipeline. PipelineDeepfakeDetection w model_configs confidence_threshold =
                   Inr pipeline
                 \<and> pipeline media_file (path_join output_dir ''deepfake_detection'')
                     num_frames = Inl e))
        \<and> is_Exception e \<longrightarrow>
      detect_deepfakes rt w image_file video_file models_to_use confidence_threshold
        num_frames = Inr (None, cross_mark @ '' **Error**: '' @ str_exn e))
   \<and> (FaceReenactor_create w reenactor_model = Inl e \<and> is_Exception e \<longrightarrow>
      reenact_face w source_image driving_video reenactor_model resize = Inr (None, None))
   \<and> (reenact_face_body w source_image driving_video reenactor_model resize = Inl e
        \<and> is_Exception e \<longrightarrow>
      reenact_face w source_image driving_video reenactor_model resize = Inr (None, None))
   \<and> (detect_faces rt w image_path detection_model = Inl e \<longleftrightarrow>
        detect_faces_body rt w image_path detection_model = Inl e \<and> \<not> is_Exception e)
   \<and> (detect_deepfakes rt w image_file video_file models_to_use confidence_threshold
        num_frames = Inl e \<longleftrightarrow>
      detect_deepfakes_run rt w image_file video_file models_to_use confidence_threshold
        num_frames = Raises e \<and> \<not> is_Exception e)
   \<and> (reenact_face w source_image driving_video reenactor_model resize = Inl e \<longleftrightarrow>
        reenact_face_body w source_image driving_video reenactor_model resize = Inl e
        \<and> \<not> is_Exception e)"
  using detect_faces_no_image [of image_path rt w detection_model]
    detect_faces_not_found [of p w rt detection_model]
    detect_faces_unknown_model [of p w detection_model e rt]
    detect_faces_detector_raises [of p w detection_model detector e rt]
    detect_deepfakes_pipeline_raises [of w image_file video_file media_file media_type
      models_to_use model_configs confidence_threshold e num_frames rt]
    reenact_face_raises [of w source_image driving_video reenactor_model resize e]
    reenact_face_unknown_model [of w reenactor_model e source_image driving_video resize]
    detect_faces_propagates [of rt w image_path detection_model e]
    detect_deepfakes_propagates [of rt w image_file video_file models_to_use
      confidence_threshold num_frames e]
    reenact_face_propagates [of w source_image driving_video reenactor_model resize e]
  by blast

theorem errors_become_responses_witness:
  "\<not> fs_exists (files studio_world) ''missing.jpg''
   \<and> detect_faces decimal_runtime studio_world (Some ''missing.jpg'') ''mediapipe'' =
       Inr (None, None, ''Error: Image file not found: missing.jpg'')
   \<and> FaceDetector_create studio_world ''yolo'' = Inl (Raised ''Unknown model'')
   \<and> detect_faces decimal_runtime studio_world (Some ''face.jpg'') ''yolo'' =
       Inr (None, None, ''Error creating detector '' @ [CHR 0x27] @ ''yolo'' @ [CHR 0x27] @
                        '': Unknown model'')
   \<and> detect_faces_body decimal_runtime studio_world (Some ''face.jpg'') ''mediapipe'' =
       Inl (Raised ''cannot read image'')
   \<and> detect_faces decimal_runtime studio_world (Some ''face.jpg'') ''mediapipe'' =
       Inr (None, None, ''Error: cannot read image'')
   \<and> FaceReenactor_create studio_world ''fomm'' = Inl (Raised ''Unknown model'')
   \<and> reenact_face studio_world (Some ''face.jpg'') (Some ''drive.mp4'') ''fomm'' False =
       Inr (None, None)
   \<and> detect_faces_body decimal_runtime studio_world (Some ''face.jpg'') ''blazeface'' =
       Inl KeyboardInterrupt
   \<and> detect_faces decimal_runtime studio_world (Some ''face.jpg'') ''blazeface'' =
       Inl KeyboardInterrupt"
proof -
  have missing: "''missing.jpg'' \<noteq> [] \<and> \<not> fs_exists (files studio_world) ''missing.jpg''"
    by (simp add: studio_world_def studio_exists)
  have present: "''face.jpg'' \<noteq> [] \<and> fs_exists (files studio_world) ''face.jpg''"
    by (simp add: studio_world_def studio_exists)
  have unknown: "FaceDetector_create studio_world ''yolo'' = Inl (Raised ''Unknown model'')
      \<and> is_Exception (Raised ''Unknown model'')"
    by (simp add: studio_world_def)
  have failing: "FaceDetector_create studio_world ''mediapipe'' =
        Inr (\<lambda>fs image json out. Inl (Raised ''cannot read image''))
      \<and> is_Exception (Raised ''cannot read image'')"
    by (simp add: studio_world_def)
  have no_reenactor: "FaceReenactor_create studio_world ''fomm'' = Inl (Raised ''Unknown model'')"
    by (simp add: studio_world_def)
  have body_failing: "detect_faces_body decimal_runtime studio_world (Some ''face.jpg'')
      ''mediapipe'' = Inl (Raised ''cannot read image'')"
    by (simp add: detect_faces_body_def studio_world_def studio_exists Let_def)
  have body_interrupted: "detect_faces_body decimal_runtime studio_world (Some ''face.jpg'')
      ''blazeface'' = Inl KeyboardInterrupt \<and> \<not> is_Exception KeyboardInterrupt"
    by (simp add: detect_faces_body_def studio_world_def studio_exists Let_def)
  note not_found = errors_become_responses [where w = studio_world and rt = decimal_runtime
        and image_path = "Some ''face.jpg''" and detection_model = "''mediapipe''" and p = "''missing.jpg''"
        and e = "Raised ''cannot read image''" and detector = "\<lambda>fs image json out. Inl (Raised ''cannot read image'')"
        and image_file = None and video_file = None and media_file = "[]" and media_type = "[]"
        and models_to_use = "[]" and model_configs = "[]" and confidence_threshold = 0
        and num_frames = 0 and reenactor_model = "''fomm''"
        and source_image = "Some ''face.jpg''" and driving_video = "Some ''drive.mp4''"
        and resize = False, THEN conjunct2, THEN conjunct1]
  note no_detector = errors_become_responses [where w = studio_world and rt = decimal_runtime
        and image_path = "Some ''face.jpg''" and detection_model = "''yolo''" and p = "''face.jpg''"
        and e = "Raised ''Unknown model''" and detector = "\<lambda>fs image json out. Inl (Raised ''cannot read image'')"
        and image_file = None and video_file = None and media_file = "[]" and media_type = "[]"
        and models_to_use = "[]" and model_configs = "[]" and confidence_threshold = 0
        and num_frames = 0 and reenactor_model = "''fomm''"
        and source_image = "Some ''face.jpg''" and driving_video = "Some ''drive.mp4''"
        and resize = False, THEN conjunct2, THEN conjunct2, THEN conjunct1]
  note detector_raises = errors_become_responses [where w = studio_world and rt = decimal_runtime
        and image_path = "Some ''face.jpg''" and detection_model = "''mediapipe''" and p = "''face.jpg''"
        and e = "Raised ''cannot read image''" and detector = "\<lambda>fs image json out. Inl (Raised ''cannot read image'')"
        and image_file = None and video_file = None and media_file = "[]" and media_type = "[]"
        and models_to_use = "[]" and model_configs = "[]" and confidence_threshold = 0
        and num_frames = 0 and reenactor_model = "''fomm''"
        and source_image = "Some ''face.jpg''" and driving_video = "Some ''drive.mp4''"
        and resize = False, THEN conjunct2, THEN conjunct2, THEN conjunct2, THEN conjunct1]
  note no_reenactor_answer = errors_become_responses [where w = studio_world and rt = decimal_runtime
        and image_path = "Some ''face.jpg''" and detection_model = "''yolo''" and p = "''face.jpg''"
        and e = "Raised ''Unknown model''" and detector = "\<lambda>fs image json out. Inl (Raised ''cannot read image'')"
        and image_file = None and video_file = None and media_file = "[]" and media_type = "[]"
        and models_to_use = "[]" and model_configs = "[]" and confidence_threshold = 0
        and num_frames = 0 and reenactor_model = "''fomm''"
        and source_image = "Some ''face.jpg''" and driving_video = "Some ''drive.mp4''"
        and resize = False, THEN conjunct2, THEN conjunct2, THEN conjunct2, THEN conjunct2, THEN conjunct2, THEN conjunct1]
  note interrupted = errors_become_responses [where w = studio_world and rt = decimal_runtime
        and image_path = "Some ''face.jpg''" and detection_model = "''blazeface''" and p = "''face.jpg''"
        and e = "KeyboardInterrupt" and detector = "\<lambda>fs image json out. Inl (Raised ''cannot read image'')"
        and image_file = None and video_file = None and media_file = "[]" and media_type = "[]"
        and models_to_use = "[]" and model_configs = "[]" and confidence_threshold = 0
        and num_frames = 0 and reenactor_model = "''fomm''"
        and source_image = "Some ''face.jpg''" and driving_video = "Some ''drive.mp4''"
        and resize = False, THEN conjunct2, THEN conjunct2, THEN conjunct2, THEN conjunct2, THEN conjunct2, THEN conjunct2, THEN conjunct2, THEN conjunct1]
  have "detect_faces decimal_runtime studio_world (Some ''missing.jpg'') ''mediapipe'' =
       Inr (None, None, ''Error: Image file not found: '' @ ''missing.jpg'')"
    using not_found missing by (rule mp)
  moreover have "detect_faces decimal_runtime studio_world (Some ''face.jpg'') ''yolo'' =
       Inr (None, None, ''Error creating detector '' @ [CHR 0x27] @ ''yolo'' @ [CHR 0x27] @
                        '': '' @ str_exn (Raised ''Unknown model''))"
  proof (rule mp [OF no_detector])
    show "''face.jpg'' \<noteq> [] \<and> fs_exists (files studio_world) ''face.jpg''
        \<and> FaceDetector_create studio_world ''yolo'' = Inl (Raised ''Unknown model'')
        \<and> is_Exception (Raised ''Unknown model'')"
      using present unknown by blast
  qed
  moreover have "detect_faces decimal_runtime studio_world (Some ''face.jpg'') ''mediapipe'' =
       Inr (None, None, ''Error: '' @ str_exn (Raised ''cannot read image''))"
  proof (rule mp [OF detector_raises])
    show "''face.jpg'' \<noteq> [] \<and> fs_exists (files studio_world) ''face.jpg''
        \<and> FaceDetector_create studio_world ''mediapipe'' =
            Inr (\<lambda>fs image json out. Inl (Raised ''cannot read image''))
        \<and> (\<lambda>fs image json out. Inl (Raised ''cannot read image'')) (files studio_world)
            ''face.jpg''
            (path_join (path_join (path_join output_dir ''face_detection'') ''mediapipe'')
               ''detections.json'')
            (path_join (path_join output_dir ''face_detection'') ''mediapipe'') =
            (Inl (Raised ''cannot read image'') :: exn + detection list \<times> filesystem)
        \<and> is_Exception (Raised ''cannot read image'')"
      using present failing by simp
  qed
  moreover have "reenact_face studio_world (Some ''face.jpg'') (Some ''drive.mp4'') ''fomm''
      False = Inr (None, None)"
  proof (rule mp [OF no_reenactor_answer])
    show "FaceReenactor_create studio_world ''fomm'' = Inl (Raised ''Unknown model'')
        \<and> is_Exception (Raised ''Unknown model'')"
      using no_reenactor by simp
  qed
  moreover have "detect_faces decimal_runtime studio_world (Some ''face.jpg'') ''blazeface'' =
       Inl KeyboardInterrupt"
    using interrupted body_interrupted by (rule iffD2)
  ultimately show ?thesis
    using missing unknown no_reenactor body_failing body_interrupted by simp
qed

end
